theory Spec2Isabelle
  imports Complex_Main
begin

section \<open>The Survivor options-selling strategy (src/strategy/survivor.py)\<close>

text \<open>
  The embedding follows \<^verbatim>\<open>SurvivorStrategy\<close> method by method. Prices, gaps and
  premiums are Python floats in the source. The handlers are modelled twice: first over
  exact reals, which is what their control flow and their own updates are stated on, and
  then with every float operation rounded to the nearest double, for what depends on the
  rounding. The broker and the order
  tracker are external objects: the broker is a record of operations over an abstract
  broker state \<open>'b\<close> (every call may change it and may answer differently the next
  time), the order tracker is the list of recorded orders.
\<close>

subsection \<open>Python primitives used by the strategy\<close>

datatype py_error = ZeroDivisionError | TypeError

text \<open>\<^verbatim>\<open>round(x, 0)\<close>: the nearest whole number, a tie going to the even neighbour.\<close>

definition py_round :: "real \<Rightarrow> real" where
  "py_round x =
     (let f = \<lfloor>x\<rfloor>; d = x - of_int f
      in if d < 1 / 2 then of_int f
         else if 1 / 2 < d then of_int (f + 1)
         else if even f then of_int f else of_int (f + 1))"

text \<open>\<^verbatim>\<open>int(x)\<close> on a float: truncation towards zero.\<close>

definition py_int :: "real \<Rightarrow> int" where
  "py_int x = (if 0 \<le> x then \<lfloor>x\<rfloor> else \<lceil>x\<rceil>)"

text \<open>\<^verbatim>\<open>a / b\<close>: true division, raising on a zero divisor.\<close>

definition py_truediv :: "real \<Rightarrow> real \<Rightarrow> py_error + real" where
  "py_truediv a b = (if b = 0 then Inl ZeroDivisionError else Inr (a / b))"

text \<open>
  The rounding of one arithmetic operation on floats: the exact result goes to the nearest
  double, a tie to the one with the even significand. A double has a significand of 53
  bits, so in the binade of \<open>x\<close>, from \<open>2 ^ e\<close> up to \<open>2 ^ (e + 1)\<close>, the doubles are
  the multiples of \<open>2 ^ (e - 52)\<close>. Overflow and subnormal numbers are left out: prices
  and gaps are far from both.
\<close>

definition double_round :: "real \<Rightarrow> real" where
  "double_round x =
     (if x = 0 then 0
      else (let u = 2 powr (of_int (\<lfloor>log 2 \<bar>x\<bar>\<rfloor> - 52))
            in u * py_round (x / u)))"

subsection \<open>Configuration, broker interface and strategy state\<close>

text \<open>
  \<^verbatim>\<open>__init__\<close> copies every configuration key \<open>k\<close> into the attribute
  \<^verbatim>\<open>strat_var_k\<close>; the record lists the keys the strategy reads.
\<close>

record config =
  strat_var_symbol_initials :: string
  strat_var_exchange :: string
  strat_var_trans_type :: string
  strat_var_order_type :: string
  strat_var_product_type :: string
  strat_var_pe_gap :: real
  strat_var_ce_gap :: real
  strat_var_pe_symbol_gap :: real
  strat_var_ce_symbol_gap :: real
  strat_var_pe_reset_gap :: real
  strat_var_ce_reset_gap :: real
  strat_var_pe_quantity :: int
  strat_var_ce_quantity :: int
  strat_var_pe_start_point :: real
  strat_var_ce_start_point :: real
  strat_var_min_price_to_sell :: real
  strat_var_sell_multiplier_threshold :: real
  strat_var_nifty_lot_size :: real

record instrument =
  tradingsymbol :: string
  strike :: real

text \<open>The keyword arguments of \<^verbatim>\<open>broker.place_order\<close>; \<open>price = None\<close> is a market order.\<close>

record order_request =
  req_symbol :: string
  req_quantity :: int
  req_price :: "real option"
  req_transaction_type :: string
  req_order_type :: string
  req_variety :: string
  req_exchange :: string
  req_product :: string
  req_tag :: string

text \<open>
  The dictionary handed to \<^verbatim>\<open>order_manager.add_order\<close>, without its wall-clock
  timestamp.
\<close>

record order_details =
  det_order_id :: int
  det_symbol :: string
  det_transaction_type :: string
  det_quantity :: int
  det_price :: "real option"

text \<open>
  The three broker calls of the strategy. \<open>broker_find_instrument\<close> answers
  \<open>None\<close> when no instrument matches; \<open>broker_get_quote\<close> answers the
  \<^verbatim>\<open>last_price\<close> of the quote, or \<open>None\<close> when the broker has no quote;
  \<open>broker_place_order\<close> answers the order id, \<open>-1\<close> on failure.
\<close>

record 'b broker_ops =
  broker_find_instrument :: "'b \<Rightarrow> string \<Rightarrow> string \<Rightarrow> real \<Rightarrow> real \<Rightarrow> instrument option \<times> 'b"
  broker_get_quote :: "'b \<Rightarrow> string \<Rightarrow> string \<Rightarrow> real option \<times> 'b"
  broker_place_order :: "'b \<Rightarrow> order_request \<Rightarrow> int \<times> 'b"

datatype log_msg =
    LogStable real real real
  | LogBreach int
  | LogNoInstrument string real
  | LogLowPremium real
  | LogExecute string string int
  | LogOrderFailed string int
  | LogPlacing string int
  | LogResetPE real real
  | LogResetCE real real

record 'b strategy =
  pe_reset_gap_flag :: int
  ce_reset_gap_flag :: int
  nifty_pe_last_value :: real
  nifty_ce_last_value :: real
  order_manager :: "order_details list"
  broker :: 'b
  log :: "log_msg list"

text \<open>Which \<^verbatim>\<open>return\<close>, \<^verbatim>\<open>break\<close> or exception ended a trade handler.\<close>

datatype handler_exit =
    Stable
  | NoTrigger
  | Breach int
  | NoInstrument
  | Traded
  | Raised py_error

subsection \<open>Initialisation\<close>

definition nifty_quote :: "'b broker_ops \<Rightarrow> 'b \<Rightarrow> real option \<times> 'b" where
  "nifty_quote ops b = broker_get_quote ops b ''NSE:NIFTY 50'' ''NSE''"

definition initialize_state :: "'b broker_ops \<Rightarrow> config \<Rightarrow> 'b \<Rightarrow> py_error + 'b strategy" where
  "initialize_state ops cfg b =
     (case nifty_quote ops b of (current_quote, b1) \<Rightarrow>
        (if strat_var_pe_start_point cfg = 0 \<or> strat_var_ce_start_point cfg = 0
         then (case current_quote of
                 None \<Rightarrow> Inl TypeError
               | Some last_price \<Rightarrow>
                   Inr \<lparr>pe_reset_gap_flag = 0, ce_reset_gap_flag = 0,
                        nifty_pe_last_value =
                          (if strat_var_pe_start_point cfg = 0 then last_price
                           else strat_var_pe_start_point cfg),
                        nifty_ce_last_value =
                          (if strat_var_ce_start_point cfg = 0 then last_price
                           else strat_var_ce_start_point cfg),
                        order_manager = [], broker = b1, log = []\<rparr>)
         else Inr \<lparr>pe_reset_gap_flag = 0, ce_reset_gap_flag = 0,
                   nifty_pe_last_value = strat_var_pe_start_point cfg,
                   nifty_ce_last_value = strat_var_ce_start_point cfg,
                   order_manager = [], broker = b1, log = []\<rparr>))"

subsection \<open>Risk gate, logging and order placement\<close>

definition check_sell_multiplier_breach ::
  "config \<Rightarrow> int \<Rightarrow> 'b strategy \<Rightarrow> bool \<times> 'b strategy" where
  "check_sell_multiplier_breach cfg sell_multiplier s =
     (if strat_var_sell_multiplier_threshold cfg < of_int sell_multiplier
      then (True, s\<lparr>log := log s @ [LogBreach sell_multiplier]\<rparr>)
      else (False, s))"

definition log_stable_market :: "real \<Rightarrow> 'b strategy \<Rightarrow> 'b strategy" where
  "log_stable_market current_val s =
     s\<lparr>log := log s @ [LogStable (nifty_pe_last_value s) (nifty_ce_last_value s) current_val]\<rparr>"

definition place_order ::
  "'b broker_ops \<Rightarrow> config \<Rightarrow> string \<Rightarrow> int \<Rightarrow> 'b strategy \<Rightarrow> 'b strategy" where
  "place_order ops cfg symbol quantity s =
     (case broker_place_order ops (broker s)
             \<lparr>req_symbol = symbol, req_quantity = quantity, req_price = None,
              req_transaction_type = strat_var_trans_type cfg,
              req_order_type = strat_var_order_type cfg,
              req_variety = ''REGULAR'',
              req_exchange = strat_var_exchange cfg,
              req_product = strat_var_product_type cfg,
              req_tag = ''Survivor''\<rparr> of
        (order_id, b1) \<Rightarrow>
          (if order_id = - 1
           then s\<lparr>broker := b1, log := log s @ [LogOrderFailed symbol quantity]\<rparr>
           else s\<lparr>broker := b1, log := log s @ [LogPlacing symbol quantity],
                  order_manager := order_manager s @
                    [\<lparr>det_order_id = order_id, det_symbol = symbol,
                      det_transaction_type = strat_var_trans_type cfg,
                      det_quantity = quantity, det_price = None\<rparr>]\<rparr>))"

subsection \<open>The strike-search loops\<close>

text \<open>
  The \<^verbatim>\<open>while True\<close> loops of the two handlers. They have no bound in the source, so
  they are partial functions: \<open>None\<close> is a loop that never leaves.
\<close>

partial_function (option) pe_strike_loop ::
  "'b broker_ops \<Rightarrow> config \<Rightarrow> real \<Rightarrow> int \<Rightarrow> real \<Rightarrow> 'b strategy
     \<Rightarrow> (handler_exit \<times> 'b strategy) option" where
  "pe_strike_loop ops cfg current_price total_quantity temp_gap s =
     (case broker_find_instrument ops (broker s) (strat_var_symbol_initials cfg) ''PE''
             current_price temp_gap of
        (None, b1) \<Rightarrow>
          Some (NoInstrument, s\<lparr>broker := b1, log := log s @ [LogNoInstrument ''PE'' temp_gap]\<rparr>)
      | (Some inst, b1) \<Rightarrow>
          (case broker_get_quote ops b1 (tradingsymbol inst) (strat_var_exchange cfg) of
             (None, b2) \<Rightarrow> Some (Raised TypeError, s\<lparr>broker := b2\<rparr>)
           | (Some last_price, b2) \<Rightarrow>
               (if last_price < strat_var_min_price_to_sell cfg
                then pe_strike_loop ops cfg current_price total_quantity
                       (temp_gap - strat_var_nifty_lot_size cfg)
                       (s\<lparr>broker := b2, log := log s @ [LogLowPremium last_price]\<rparr>)
                else Some (Traded,
                       (place_order ops cfg (tradingsymbol inst) total_quantity
                          (s\<lparr>broker := b2,
                             log := log s @ [LogExecute ''PE'' (tradingsymbol inst) total_quantity]\<rparr>))
                       \<lparr>pe_reset_gap_flag := 1\<rparr>))))"

partial_function (option) ce_strike_loop ::
  "'b broker_ops \<Rightarrow> config \<Rightarrow> real \<Rightarrow> int \<Rightarrow> real \<Rightarrow> 'b strategy
     \<Rightarrow> (handler_exit \<times> 'b strategy) option" where
  "ce_strike_loop ops cfg current_price total_quantity temp_gap s =
     (case broker_find_instrument ops (broker s) (strat_var_symbol_initials cfg) ''CE''
             current_price temp_gap of
        (None, b1) \<Rightarrow>
          Some (NoInstrument, s\<lparr>broker := b1, log := log s @ [LogNoInstrument ''CE'' temp_gap]\<rparr>)
      | (Some inst, b1) \<Rightarrow>
          (case broker_get_quote ops b1 (tradingsymbol inst) (strat_var_exchange cfg) of
             (None, b2) \<Rightarrow> Some (Raised TypeError, s\<lparr>broker := b2\<rparr>)
           | (Some last_price, b2) \<Rightarrow>
               (if last_price < strat_var_min_price_to_sell cfg
                then ce_strike_loop ops cfg current_price total_quantity
                       (temp_gap - strat_var_nifty_lot_size cfg)
                       (s\<lparr>broker := b2, log := log s @ [LogLowPremium last_price]\<rparr>)
                else Some (Traded,
                       (place_order ops cfg (tradingsymbol inst) total_quantity
                          (s\<lparr>broker := b2,
                             log := log s @ [LogExecute ''CE'' (tradingsymbol inst) total_quantity]\<rparr>))
                       \<lparr>ce_reset_gap_flag := 1\<rparr>))))"

subsection \<open>The trade handlers\<close>

definition handle_pe_trade ::
  "'b broker_ops \<Rightarrow> config \<Rightarrow> real \<Rightarrow> 'b strategy \<Rightarrow> (handler_exit \<times> 'b strategy) option" where
  "handle_pe_trade ops cfg current_price s =
     (if current_price \<le> nifty_pe_last_value s
      then Some (Stable, log_stable_market current_price s)
      else
        (let price_diff = py_round (current_price - nifty_pe_last_value s)
         in if strat_var_pe_gap cfg < price_diff
            then (case py_truediv price_diff (strat_var_pe_gap cfg) of
                    Inl e \<Rightarrow> Some (Raised e, s)
                  | Inr q \<Rightarrow>
                      (let sell_multiplier = py_int q
                       in case check_sell_multiplier_breach cfg sell_multiplier s of
                            (True, s1) \<Rightarrow>
                              Some (Breach sell_multiplier,
                                    s1\<lparr>log := log s1 @ [LogBreach sell_multiplier]\<rparr>)
                          | (False, s1) \<Rightarrow>
                              pe_strike_loop ops cfg current_price
                                (sell_multiplier * strat_var_pe_quantity cfg)
                                (strat_var_pe_symbol_gap cfg)
                                (s1\<lparr>nifty_pe_last_value :=
                                      nifty_pe_last_value s1
                                        + strat_var_pe_gap cfg * of_int sell_multiplier\<rparr>)))
            else Some (NoTrigger, s)))"

definition handle_ce_trade ::
  "'b broker_ops \<Rightarrow> config \<Rightarrow> real \<Rightarrow> 'b strategy \<Rightarrow> (handler_exit \<times> 'b strategy) option" where
  "handle_ce_trade ops cfg current_price s =
     (if nifty_ce_last_value s \<le> current_price
      then Some (Stable, log_stable_market current_price s)
      else
        (let price_diff = py_round (nifty_ce_last_value s - current_price)
         in if strat_var_ce_gap cfg < price_diff
            then (case py_truediv price_diff (strat_var_ce_gap cfg) of
                    Inl e \<Rightarrow> Some (Raised e, s)
                  | Inr q \<Rightarrow>
                      (let sell_multiplier = py_int q
                       in case check_sell_multiplier_breach cfg sell_multiplier s of
                            (True, s1) \<Rightarrow>
                              Some (Breach sell_multiplier,
                                    s1\<lparr>log := log s1 @ [LogBreach sell_multiplier]\<rparr>)
                          | (False, s1) \<Rightarrow>
                              ce_strike_loop ops cfg current_price
                                (sell_multiplier * strat_var_ce_quantity cfg)
                                (strat_var_ce_symbol_gap cfg)
                                (s1\<lparr>nifty_ce_last_value :=
                                      nifty_ce_last_value s1
                                        - strat_var_ce_gap cfg * of_int sell_multiplier\<rparr>)))
            else Some (NoTrigger, s)))"

subsection \<open>The handlers in double precision\<close>

text \<open>
  The loops and the handlers once more, as the interpreter computes them on floats: every
  subtraction, division, product and sum is rounded to the nearest double. \<^verbatim>\<open>round\<close>,
  \<^verbatim>\<open>int\<close> and the comparisons are exact on doubles. A Python int of the configuration
  enters float arithmetic as the double of the same value, and a product of two ints, exact
  in Python, is below \<open>2 ^ 53\<close> a double already, so that rounding it changes nothing.
\<close>

partial_function (option) pe_strike_loop_double ::
  "'b broker_ops \<Rightarrow> config \<Rightarrow> real \<Rightarrow> int \<Rightarrow> real \<Rightarrow> 'b strategy
     \<Rightarrow> (handler_exit \<times> 'b strategy) option" where
  "pe_strike_loop_double ops cfg current_price total_quantity temp_gap s =
     (case broker_find_instrument ops (broker s) (strat_var_symbol_initials cfg) ''PE''
             current_price temp_gap of
        (None, b1) \<Rightarrow>
          Some (NoInstrument, s\<lparr>broker := b1, log := log s @ [LogNoInstrument ''PE'' temp_gap]\<rparr>)
      | (Some inst, b1) \<Rightarrow>
          (case broker_get_quote ops b1 (tradingsymbol inst) (strat_var_exchange cfg) of
             (None, b2) \<Rightarrow> Some (Raised TypeError, s\<lparr>broker := b2\<rparr>)
           | (Some last_price, b2) \<Rightarrow>
               (if last_price < strat_var_min_price_to_sell cfg
                then pe_strike_loop_double ops cfg current_price total_quantity
                       (double_round (temp_gap - strat_var_nifty_lot_size cfg))
                       (s\<lparr>broker := b2, log := log s @ [LogLowPremium last_price]\<rparr>)
                else Some (Traded,
                       (place_order ops cfg (tradingsymbol inst) total_quantity
                          (s\<lparr>broker := b2,
                             log := log s @ [LogExecute ''PE'' (tradingsymbol inst) total_quantity]\<rparr>))
                       \<lparr>pe_reset_gap_flag := 1\<rparr>))))"

partial_function (option) ce_strike_loop_double ::
  "'b broker_ops \<Rightarrow> config \<Rightarrow> real \<Rightarrow> int \<Rightarrow> real \<Rightarrow> 'b strategy
     \<Rightarrow> (handler_exit \<times> 'b strategy) option" where
  "ce_strike_loop_double ops cfg current_price total_quantity temp_gap s =
     (case broker_find_instrument ops (broker s) (strat_var_symbol_initials cfg) ''CE''
             current_price temp_gap of
        (None, b1) \<Rightarrow>
          Some (NoInstrument, s\<lparr>broker := b1, log := log s @ [LogNoInstrument ''CE'' temp_gap]\<rparr>)
      | (Some inst, b1) \<Rightarrow>
          (case broker_get_quote ops b1 (tradingsymbol inst) (strat_var_exchange cfg) of
             (None, b2) \<Rightarrow> Some (Raised TypeError, s\<lparr>broker := b2\<rparr>)
           | (Some last_price, b2) \<Rightarrow>
               (if last_price < strat_var_min_price_to_sell cfg
                then ce_strike_loop_double ops cfg current_price total_quantity
                       (double_round (temp_gap - strat_var_nifty_lot_size cfg))
                       (s\<lparr>broker := b2, log := log s @ [LogLowPremium last_price]\<rparr>)
                else Some (Traded,
                       (place_order ops cfg (tradingsymbol inst) total_quantity
                          (s\<lparr>broker := b2,
                             log := log s @ [LogExecute ''CE'' (tradingsymbol inst) total_quantity]\<rparr>))
                       \<lparr>ce_reset_gap_flag := 1\<rparr>))))"

definition handle_pe_trade_double ::
  "'b broker_ops \<Rightarrow> config \<Rightarrow> real \<Rightarrow> 'b strategy \<Rightarrow> (handler_exit \<times> 'b strategy) option" where
  "handle_pe_trade_double ops cfg current_price s =
     (if current_price \<le> nifty_pe_last_value s
      then Some (Stable, log_stable_market current_price s)
      else
        (let price_diff = py_round (double_round (current_price - nifty_pe_last_value s))
         in if strat_var_pe_gap cfg < price_diff
            then (case py_truediv price_diff (strat_var_pe_gap cfg) of
                    Inl e \<Rightarrow> Some (Raised e, s)
                  | Inr q \<Rightarrow>
                      (let sell_multiplier = py_int (double_round q)
                       in case check_sell_multiplier_breach cfg sell_multiplier s of
                            (True, s1) \<Rightarrow>
                              Some (Breach sell_multiplier,
                                    s1\<lparr>log := log s1 @ [LogBreach sell_multiplier]\<rparr>)
                          | (False, s1) \<Rightarrow>
                              pe_strike_loop_double ops cfg current_price
                                (sell_multiplier * strat_var_pe_quantity cfg)
                                (strat_var_pe_symbol_gap cfg)
                                (s1\<lparr>nifty_pe_last_value :=
                                      double_round (nifty_pe_last_value s1
                                        + double_round
                                            (strat_var_pe_gap cfg * of_int sell_multiplier))\<rparr>)))
            else Some (NoTrigger, s)))"

definition handle_ce_trade_double ::
  "'b broker_ops \<Rightarrow> config \<Rightarrow> real \<Rightarrow> 'b strategy \<Rightarrow> (handler_exit \<times> 'b strategy) option" where
  "handle_ce_trade_double ops cfg current_price s =
     (if nifty_ce_last_value s \<le> current_price
      then Some (Stable, log_stable_market current_price s)
      else
        (let price_diff = py_round (double_round (nifty_ce_last_value s - current_price))
         in if strat_var_ce_gap cfg < price_diff
            then (case py_truediv price_diff (strat_var_ce_gap cfg) of
                    Inl e \<Rightarrow> Some (Raised e, s)
                  | Inr q \<Rightarrow>
                      (let sell_multiplier = py_int (double_round q)
                       in case check_sell_multiplier_breach cfg sell_multiplier s of
                            (True, s1) \<Rightarrow>
                              Some (Breach sell_multiplier,
                                    s1\<lparr>log := log s1 @ [LogBreach sell_multiplier]\<rparr>)
                          | (False, s1) \<Rightarrow>
                              ce_strike_loop_double ops cfg current_price
                                (sell_multiplier * strat_var_ce_quantity cfg)
                                (strat_var_ce_symbol_gap cfg)
                                (s1\<lparr>nifty_ce_last_value :=
                                      double_round (nifty_ce_last_value s1
                                        - double_round
                                            (strat_var_ce_gap cfg * of_int sell_multiplier))\<rparr>)))
            else Some (NoTrigger, s)))"

subsection \<open>Reset of the reference values, and one tick\<close>

definition reset_reference_values :: "config \<Rightarrow> real \<Rightarrow> 'b strategy \<Rightarrow> 'b strategy" where
  "reset_reference_values cfg current_price s =
     (let s1 =
            (if strat_var_pe_reset_gap cfg < nifty_pe_last_value s - current_price
                \<and> pe_reset_gap_flag s \<noteq> 0
             then s\<lparr>log := log s @ [LogResetPE (nifty_pe_last_value s)
                                      (current_price + strat_var_pe_reset_gap cfg)],
                    nifty_pe_last_value := current_price + strat_var_pe_reset_gap cfg\<rparr>
             else s)
      in if strat_var_ce_reset_gap cfg < current_price - nifty_ce_last_value s1
            \<and> ce_reset_gap_flag s1 \<noteq> 0
         then s1\<lparr>log := log s1 @ [LogResetCE (nifty_ce_last_value s1)
                                     (current_price - strat_var_ce_reset_gap cfg)],
                 nifty_ce_last_value := current_price - strat_var_ce_reset_gap cfg\<rparr>
         else s1)"

text \<open>
  \<^verbatim>\<open>on_ticks_update\<close>: an exception raised by a handler leaves the method at once, with
  the state as mutated so far; the first component of the result is that exception.
\<close>

definition on_ticks_update ::
  "'b broker_ops \<Rightarrow> config \<Rightarrow> real \<Rightarrow> 'b strategy \<Rightarrow> (py_error option \<times> 'b strategy) option" where
  "on_ticks_update ops cfg current_price s =
     (case handle_pe_trade ops cfg current_price s of
        None \<Rightarrow> None
      | Some (Raised e, s1) \<Rightarrow> Some (Some e, s1)
      | Some (_, s1) \<Rightarrow>
          (case handle_ce_trade ops cfg current_price s1 of
             None \<Rightarrow> None
           | Some (Raised e, s2) \<Rightarrow> Some (Some e, s2)
           | Some (_, s2) \<Rightarrow> Some (None, reset_reference_values cfg current_price s2)))"

text \<open>
  The trading loop of \<^verbatim>\<open>main.py\<close> over the ticks that arrive: an exception of one
  tick is logged there and the loop goes on with the next tick.
\<close>

fun main_loop :: "'b broker_ops \<Rightarrow> config \<Rightarrow> real list \<Rightarrow> 'b strategy \<Rightarrow> 'b strategy option" where
  "main_loop ops cfg [] s = Some s"
| "main_loop ops cfg (t # ts) s =
     (case on_ticks_update ops cfg t s of
        None \<Rightarrow> None
      | Some (_, s1) \<Rightarrow> main_loop ops cfg ts s1)"

subsection \<open>Observations on a handler's result\<close>

text \<open>
  A handler's trigger fired when the handler went past its gap test, that is when it did
  not leave by one of its two no-action exits. A handler that never returns is inside its
  strike search, which only a fired trigger enters.
\<close>

definition trigger_fired :: "(handler_exit \<times> 'b strategy) option \<Rightarrow> bool" where
  "trigger_fired r =
     (case r of
        Some (Stable, _) \<Rightarrow> False
      | Some (NoTrigger, _) \<Rightarrow> False
      | _ \<Rightarrow> True)"

text \<open>What a strike search may and may not change: the frame of the PE loop and of the CE loop.\<close>

definition pe_frame :: "'b strategy \<Rightarrow> handler_exit \<times> 'b strategy \<Rightarrow> bool" where
  "pe_frame s r \<longleftrightarrow>
     nifty_pe_last_value (snd r) = nifty_pe_last_value s
       \<and> nifty_ce_last_value (snd r) = nifty_ce_last_value s
       \<and> ce_reset_gap_flag (snd r) = ce_reset_gap_flag s
       \<and> (fst r = Traded \<and> pe_reset_gap_flag (snd r) = 1
          \<or> fst r \<in> {NoInstrument, Raised TypeError}
             \<and> pe_reset_gap_flag (snd r) = pe_reset_gap_flag s
             \<and> order_manager (snd r) = order_manager s)"

definition ce_frame :: "'b strategy \<Rightarrow> handler_exit \<times> 'b strategy \<Rightarrow> bool" where
  "ce_frame s r \<longleftrightarrow>
     nifty_pe_last_value (snd r) = nifty_pe_last_value s
       \<and> nifty_ce_last_value (snd r) = nifty_ce_last_value s
       \<and> pe_reset_gap_flag (snd r) = pe_reset_gap_flag s
       \<and> (fst r = Traded \<and> ce_reset_gap_flag (snd r) = 1
          \<or> fst r \<in> {NoInstrument, Raised TypeError}
             \<and> ce_reset_gap_flag (snd r) = ce_reset_gap_flag s
             \<and> order_manager (snd r) = order_manager s)"

subsection \<open>A configuration and brokers to run the strategy on\<close>

text \<open>
  The configuration of the docstrings: gaps of 25, strikes 200 away, reset gaps of 50, a
  minimum premium of 15, at most a multiplier of 3, strike steps of 50.
\<close>

definition example_config :: config where
  "example_config =
     \<lparr>strat_var_symbol_initials = ''NIFTY25JAN30'', strat_var_exchange = ''NFO'',
      strat_var_trans_type = ''SELL'', strat_var_order_type = ''MARKET'',
      strat_var_product_type = ''NRML'',
      strat_var_pe_gap = 25, strat_var_ce_gap = 25,
      strat_var_pe_symbol_gap = 200, strat_var_ce_symbol_gap = 200,
      strat_var_pe_reset_gap = 50, strat_var_ce_reset_gap = 50,
      strat_var_pe_quantity = 75, strat_var_ce_quantity = 75,
      strat_var_pe_start_point = 24500, strat_var_ce_start_point = 24500,
      strat_var_min_price_to_sell = 15, strat_var_sell_multiplier_threshold = 3,
      strat_var_nifty_lot_size = 50\<rparr>"

text \<open>
  The state of the example brokers is the list of order requests they have received. They
  find an instrument at every gap, named after the gap being 200 or not.
\<close>

definition example_find ::
  "order_request list \<Rightarrow> string \<Rightarrow> string \<Rightarrow> real \<Rightarrow> real
     \<Rightarrow> instrument option \<times> order_request list" where
  "example_find b symbol_initials option_type ltp gap =
     (Some \<lparr>tradingsymbol = (if gap = 200 then ''FAR'' else ''NEAR''),
            strike = (if option_type = ''PE'' then ltp - gap else ltp + gap)\<rparr>, b)"

text \<open>The far strike quotes 10, every other one 20; orders get the id 1001.\<close>

definition example_broker :: "order_request list broker_ops" where
  "example_broker =
     \<lparr>broker_find_instrument = example_find,
      broker_get_quote = (\<lambda>b symbol exchange. (Some (if symbol = ''FAR'' then 10 else 20), b)),
      broker_place_order = (\<lambda>b req. (1001, b @ [req]))\<rparr>"

text \<open>The same broker, failing every order with the sentinel \<open>-1\<close>.\<close>

definition failing_broker :: "order_request list broker_ops" where
  "failing_broker =
     \<lparr>broker_find_instrument = example_find,
      broker_get_quote = (\<lambda>b symbol exchange. (Some (if symbol = ''FAR'' then 10 else 20), b)),
      broker_place_order = (\<lambda>b req. (- 1, b @ [req]))\<rparr>"

text \<open>A broker whose every quote is 1, below the minimum premium.\<close>

definition low_premium_broker :: "order_request list broker_ops" where
  "low_premium_broker =
     \<lparr>broker_find_instrument = example_find,
      broker_get_quote = (\<lambda>b symbol exchange. (Some 1, b)),
      broker_place_order = (\<lambda>b req. (1001, b @ [req]))\<rparr>"

text \<open>A broker that finds no instrument.\<close>

definition empty_broker :: "order_request list broker_ops" where
  "empty_broker =
     \<lparr>broker_find_instrument = (\<lambda>b symbol_initials option_type ltp gap. (None, b)),
      broker_get_quote = (\<lambda>b symbol exchange. (None, b)),
      broker_place_order = (\<lambda>b req. (- 1, b @ [req]))\<rparr>"

text \<open>The strategy right after initialisation at 24500, and the same with both sides armed.\<close>

definition example_state :: "order_request list strategy" where
  "example_state =
     \<lparr>pe_reset_gap_flag = 0, ce_reset_gap_flag = 0,
      nifty_pe_last_value = 24500, nifty_ce_last_value = 24500,
      order_manager = [], broker = [], log = []\<rparr>"

definition armed_state :: "order_request list strategy" where
  "armed_state =
     \<lparr>pe_reset_gap_flag = 1, ce_reset_gap_flag = 1,
      nifty_pe_last_value = 24550, nifty_ce_last_value = 24400,
      order_manager = [], broker = [], log = []\<rparr>"

section \<open>Auxiliary facts\<close>

subsection \<open>Rounding and truncation\<close>

lemma py_round_le: "py_round x \<le> x + 1 / 2"
  unfolding py_round_def Let_def by (auto; linarith)

lemma py_round_ge: "x - 1 / 2 \<le> py_round x"
  unfolding py_round_def Let_def by (auto; linarith)


lemma py_round_nonneg: "0 \<le> x \<Longrightarrow> 0 \<le> py_round x"
  unfolding py_round_def Let_def by (auto; linarith)

lemma py_round_numeral [simp]: "py_round (numeral n) = numeral n"
  by (simp add: py_round_def Let_def)


lemma advance_le:
  assumes "g \<noteq> 0" "0 \<le> r"  "g < r"
  shows "g * of_int (py_int (r / g)) \<le> r"
proof (cases "0 < g")
  case True
  then have "py_int (r / g) = \<lfloor>r / g\<rfloor>" using assms by (simp add: py_int_def)
  moreover have "of_int \<lfloor>r / g\<rfloor> * g \<le> r"
    using True by (simp add: pos_le_divide_eq[symmetric])
  ultimately show ?thesis by (simp add: mult.commute)
next
  case False
  with assms have g: "g < 0" by simp
  then have q: "r / g \<le> 0" using assms by (simp add: divide_nonneg_neg)
  have "r / g \<le> of_int (py_int (r / g))"
    using q by (auto simp: py_int_def)
  then have "of_int (py_int (r / g)) * g \<le> r"
    using g by (simp add: neg_divide_le_eq)
  then show ?thesis by (simp add: mult.commute)
qed

subsection \<open>What the strike searches leave alone\<close>

lemma place_order_frame:
  "nifty_pe_last_value (place_order ops cfg sy q s) = nifty_pe_last_value s"
  "nifty_ce_last_value (place_order ops cfg sy q s) = nifty_ce_last_value s"
  "pe_reset_gap_flag (place_order ops cfg sy q s) = pe_reset_gap_flag s"
  "ce_reset_gap_flag (place_order ops cfg sy q s) = ce_reset_gap_flag s"
  by (simp_all add: place_order_def split: prod.splits)

lemma pe_frame_upd:
  "pe_frame (s\<lparr>broker := b, log := l\<rparr>) r \<Longrightarrow> pe_frame s r"
  by (simp add: pe_frame_def)

lemma ce_frame_upd:
  "ce_frame (s\<lparr>broker := b, log := l\<rparr>) r \<Longrightarrow> ce_frame s r"
  by (simp add: ce_frame_def)

lemma pe_strike_loop_frame:
  "pe_strike_loop ops cfg cp tq g s = Some r \<Longrightarrow> pe_frame s r"
  apply (erule pe_strike_loop.raw_induct[where P = "\<lambda>_ _ _ _ _ s r. pe_frame s r", rotated])
  apply (simp split: prod.splits option.splits if_splits)
     apply (auto simp add: pe_frame_def)[2]
   apply (blast dest: pe_frame_upd)
  apply (auto simp add: pe_frame_def place_order_frame)
  done

lemma ce_strike_loop_frame:
  "ce_strike_loop ops cfg cp tq g s = Some r \<Longrightarrow> ce_frame s r"
  apply (erule ce_strike_loop.raw_induct[where P = "\<lambda>_ _ _ _ _ s r. ce_frame s r", rotated])
  apply (simp split: prod.splits option.splits if_splits)
     apply (auto simp add: ce_frame_def)[2]
   apply (blast dest: ce_frame_upd)
  apply (auto simp add: ce_frame_def place_order_frame)
  done



subsection \<open>The handlers on a fired trigger\<close>

lemma handle_pe_trade_fired:
  assumes "nifty_pe_last_value s < cp"
    and "strat_var_pe_gap cfg < py_round (cp - nifty_pe_last_value s)"
    and "strat_var_pe_gap cfg \<noteq> 0"
  shows "handle_pe_trade ops cfg cp s =
     (let m = py_int (py_round (cp - nifty_pe_last_value s) / strat_var_pe_gap cfg)
      in if strat_var_sell_multiplier_threshold cfg < of_int m
         then Some (Breach m, s\<lparr>log := log s @ [LogBreach m, LogBreach m]\<rparr>)
         else pe_strike_loop ops cfg cp (m * strat_var_pe_quantity cfg)
                (strat_var_pe_symbol_gap cfg)
                (s\<lparr>nifty_pe_last_value :=
                     nifty_pe_last_value s + strat_var_pe_gap cfg * of_int m\<rparr>))"
  using assms
  by (simp add: handle_pe_trade_def py_truediv_def check_sell_multiplier_breach_def Let_def)

lemma handle_ce_trade_fired:
  assumes "cp < nifty_ce_last_value s"
    and "strat_var_ce_gap cfg < py_round (nifty_ce_last_value s - cp)"
    and "strat_var_ce_gap cfg \<noteq> 0"
  shows "handle_ce_trade ops cfg cp s =
     (let m = py_int (py_round (nifty_ce_last_value s - cp) / strat_var_ce_gap cfg)
      in if strat_var_sell_multiplier_threshold cfg < of_int m
         then Some (Breach m, s\<lparr>log := log s @ [LogBreach m, LogBreach m]\<rparr>)
         else ce_strike_loop ops cfg cp (m * strat_var_ce_quantity cfg)
                (strat_var_ce_symbol_gap cfg)
                (s\<lparr>nifty_ce_last_value :=
                     nifty_ce_last_value s - strat_var_ce_gap cfg * of_int m\<rparr>))"
  using assms
  by (simp add: handle_ce_trade_def py_truediv_def check_sell_multiplier_breach_def Let_def)

text \<open>A handler that leaves by the risk gate has only written its two log lines.\<close>

lemma handle_pe_trade_breach:
  assumes "handle_pe_trade ops cfg cp s = Some (Breach k, s')"
  shows "s' = s\<lparr>log := log s @ [LogBreach k, LogBreach k]\<rparr>
         \<and> strat_var_sell_multiplier_threshold cfg < of_int k"
proof -
  from assms have 1: "\<not> cp \<le> nifty_pe_last_value s"
    by (auto simp: handle_pe_trade_def)
  with assms have 2: "strat_var_pe_gap cfg < py_round (cp - nifty_pe_last_value s)"
    by (auto simp: handle_pe_trade_def Let_def split: if_splits)
  from assms 1 2 have 3: "strat_var_pe_gap cfg \<noteq> 0"
    by (auto simp: handle_pe_trade_def Let_def py_truediv_def)
  from 1 have lt: "nifty_pe_last_value s < cp" by simp
  show ?thesis
    using assms pe_strike_loop_frame[of ops cfg cp _ _ _ "(Breach k, s')"]
    unfolding handle_pe_trade_fired[OF lt 2 3] Let_def
    by (auto simp: pe_frame_def split: if_splits)
qed

lemma handle_ce_trade_breach:
  assumes "handle_ce_trade ops cfg cp s = Some (Breach k, s')"
  shows "s' = s\<lparr>log := log s @ [LogBreach k, LogBreach k]\<rparr>
         \<and> strat_var_sell_multiplier_threshold cfg < of_int k"
proof -
  from assms have 1: "\<not> nifty_ce_last_value s \<le> cp"
    by (auto simp: handle_ce_trade_def)
  with assms have 2: "strat_var_ce_gap cfg < py_round (nifty_ce_last_value s - cp)"
    by (auto simp: handle_ce_trade_def Let_def split: if_splits)
  from assms 1 2 have 3: "strat_var_ce_gap cfg \<noteq> 0"
    by (auto simp: handle_ce_trade_def Let_def py_truediv_def)
  from 1 have lt: "cp < nifty_ce_last_value s" by simp
  show ?thesis
    using assms ce_strike_loop_frame[of ops cfg cp _ _ _ "(Breach k, s')"]
    unfolding handle_ce_trade_fired[OF lt 2 3] Let_def
    by (auto simp: ce_frame_def split: if_splits)
qed

subsection \<open>One round of a strike search\<close>

lemma pe_strike_loop_none:
  "broker_find_instrument ops (broker s) (strat_var_symbol_initials cfg) ''PE'' cp g = (None, b1)
   \<Longrightarrow> pe_strike_loop ops cfg cp tq g s =
         Some (NoInstrument, s\<lparr>broker := b1, log := log s @ [LogNoInstrument ''PE'' g]\<rparr>)"
  by (subst pe_strike_loop.simps) simp

lemma pe_strike_loop_sell:
  "broker_find_instrument ops (broker s) (strat_var_symbol_initials cfg) ''PE'' cp g = (Some inst, b1)
   \<Longrightarrow> broker_get_quote ops b1 (tradingsymbol inst) (strat_var_exchange cfg) = (Some p, b2)
   \<Longrightarrow> strat_var_min_price_to_sell cfg \<le> p
   \<Longrightarrow> pe_strike_loop ops cfg cp tq g s =
         Some (Traded,
               (place_order ops cfg (tradingsymbol inst) tq
                  (s\<lparr>broker := b2, log := log s @ [LogExecute ''PE'' (tradingsymbol inst) tq]\<rparr>))
               \<lparr>pe_reset_gap_flag := 1\<rparr>)"
  by (subst pe_strike_loop.simps) simp

lemma pe_strike_loop_retry:
  "broker_find_instrument ops (broker s) (strat_var_symbol_initials cfg) ''PE'' cp g = (Some inst, b1)
   \<Longrightarrow> broker_get_quote ops b1 (tradingsymbol inst) (strat_var_exchange cfg) = (Some p, b2)
   \<Longrightarrow> p < strat_var_min_price_to_sell cfg
   \<Longrightarrow> pe_strike_loop ops cfg cp tq g s =
         pe_strike_loop ops cfg cp tq (g - strat_var_nifty_lot_size cfg)
           (s\<lparr>broker := b2, log := log s @ [LogLowPremium p]\<rparr>)"
  by (subst pe_strike_loop.simps) simp

lemma pe_strike_loop_no_quote:
  "broker_find_instrument ops (broker s) (strat_var_symbol_initials cfg) ''PE'' cp g = (Some inst, b1)
   \<Longrightarrow> broker_get_quote ops b1 (tradingsymbol inst) (strat_var_exchange cfg) = (None, b2)
   \<Longrightarrow> pe_strike_loop ops cfg cp tq g s = Some (Raised TypeError, s\<lparr>broker := b2\<rparr>)"
  by (subst pe_strike_loop.simps) simp

lemma ce_strike_loop_none:
  "broker_find_instrument ops (broker s) (strat_var_symbol_initials cfg) ''CE'' cp g = (None, b1)
   \<Longrightarrow> ce_strike_loop ops cfg cp tq g s =
         Some (NoInstrument, s\<lparr>broker := b1, log := log s @ [LogNoInstrument ''CE'' g]\<rparr>)"
  by (subst ce_strike_loop.simps) simp

lemma ce_strike_loop_sell:
  "broker_find_instrument ops (broker s) (strat_var_symbol_initials cfg) ''CE'' cp g = (Some inst, b1)
   \<Longrightarrow> broker_get_quote ops b1 (tradingsymbol inst) (strat_var_exchange cfg) = (Some p, b2)
   \<Longrightarrow> strat_var_min_price_to_sell cfg \<le> p
   \<Longrightarrow> ce_strike_loop ops cfg cp tq g s =
         Some (Traded,
               (place_order ops cfg (tradingsymbol inst) tq
                  (s\<lparr>broker := b2, log := log s @ [LogExecute ''CE'' (tradingsymbol inst) tq]\<rparr>))
               \<lparr>ce_reset_gap_flag := 1\<rparr>)"
  by (subst ce_strike_loop.simps) simp

lemma ce_strike_loop_retry:
  "broker_find_instrument ops (broker s) (strat_var_symbol_initials cfg) ''CE'' cp g = (Some inst, b1)
   \<Longrightarrow> broker_get_quote ops b1 (tradingsymbol inst) (strat_var_exchange cfg) = (Some p, b2)
   \<Longrightarrow> p < strat_var_min_price_to_sell cfg
   \<Longrightarrow> ce_strike_loop ops cfg cp tq g s =
         ce_strike_loop ops cfg cp tq (g - strat_var_nifty_lot_size cfg)
           (s\<lparr>broker := b2, log := log s @ [LogLowPremium p]\<rparr>)"
  by (subst ce_strike_loop.simps) simp

lemma ce_strike_loop_no_quote:
  "broker_find_instrument ops (broker s) (strat_var_symbol_initials cfg) ''CE'' cp g = (Some inst, b1)
   \<Longrightarrow> broker_get_quote ops b1 (tradingsymbol inst) (strat_var_exchange cfg) = (None, b2)
   \<Longrightarrow> ce_strike_loop ops cfg cp tq g s = Some (Raised TypeError, s\<lparr>broker := b2\<rparr>)"
  by (subst ce_strike_loop.simps) simp

subsection \<open>The strategy run on the example broker\<close>

lemma example_pe_search:
  "pe_strike_loop example_broker example_config cp tq 200 s =
     pe_strike_loop example_broker example_config cp tq 150
       (s\<lparr>broker := broker s, log := log s @ [LogLowPremium 10]\<rparr>)"
  by (subst pe_strike_loop_retry[where inst = "\<lparr>tradingsymbol = ''FAR'', strike = cp - 200\<rparr>"
        and ?b1.0 = "broker s" and p = 10 and ?b2.0 = "broker s"])
     (simp_all add: example_broker_def example_find_def example_config_def)

lemma example_pe_search_near:
  "pe_strike_loop example_broker example_config cp tq 150 s =
     Some (Traded,
       s\<lparr>broker := broker s @ [\<lparr>req_symbol = ''NEAR'', req_quantity = tq, req_price = None,
              req_transaction_type = ''SELL'', req_order_type = ''MARKET'',
              req_variety = ''REGULAR'', req_exchange = ''NFO'', req_product = ''NRML'',
              req_tag = ''Survivor''\<rparr>],
         log := log s @ [LogExecute ''PE'' ''NEAR'' tq, LogPlacing ''NEAR'' tq],
         order_manager := order_manager s @
           [\<lparr>det_order_id = 1001, det_symbol = ''NEAR'', det_transaction_type = ''SELL'',
             det_quantity = tq, det_price = None\<rparr>],
         pe_reset_gap_flag := 1\<rparr>)"
  by (subst pe_strike_loop_sell[where inst = "\<lparr>tradingsymbol = ''NEAR'', strike = cp - 150\<rparr>"
        and ?b1.0 = "broker s" and p = 20 and ?b2.0 = "broker s"])
     (simp_all add: example_broker_def example_find_def example_config_def place_order_def)

lemma py_round_30: "py_round 30 = 30"
  by (simp add: py_round_def Let_def)

lemma example_pe_trade:
  "handle_pe_trade example_broker example_config 24530 example_state =
     Some (Traded,
       \<lparr>pe_reset_gap_flag = 1, ce_reset_gap_flag = 0,
        nifty_pe_last_value = 24525, nifty_ce_last_value = 24500,
        order_manager = [\<lparr>det_order_id = 1001, det_symbol = ''NEAR'',
             det_transaction_type = ''SELL'', det_quantity = 75, det_price = None\<rparr>],
        broker = [\<lparr>req_symbol = ''NEAR'', req_quantity = 75, req_price = None,
              req_transaction_type = ''SELL'', req_order_type = ''MARKET'',
              req_variety = ''REGULAR'', req_exchange = ''NFO'', req_product = ''NRML'',
              req_tag = ''Survivor''\<rparr>],
        log = [LogLowPremium 10, LogExecute ''PE'' ''NEAR'' 75, LogPlacing ''NEAR'' 75]\<rparr>)"
proof -
  have "handle_pe_trade example_broker example_config 24530 example_state =
        pe_strike_loop example_broker example_config 24530 75 200
          (example_state\<lparr>nifty_pe_last_value := 24525\<rparr>)"
    by (subst handle_pe_trade_fired)
       (simp_all add: example_config_def example_state_def py_round_30 py_int_def)
  then show ?thesis
    by (simp add: example_pe_search example_pe_search_near example_state_def)
qed

subsection \<open>A strike search that never leaves\<close>

lemma pe_strike_loop_diverges:
  assumes find: "\<forall>b si ot ltp gap. \<exists>inst b'.
                   broker_find_instrument ops b si ot ltp gap = (Some inst, b')"
    and quote: "\<forall>b sy ex. \<exists>p b'. broker_get_quote ops b sy ex = (Some p, b')
                  \<and> p < strat_var_min_price_to_sell cfg"
  shows "pe_strike_loop ops cfg cp tq g s = None"
proof (rule ccontr)
  define H where "H = (\<lambda>(ops' :: 'a broker_ops) (cfg' :: config).
      (\<forall>b si ot ltp gap. \<exists>inst b'. broker_find_instrument ops' b si ot ltp gap = (Some inst, b'))
    \<and> (\<forall>b sy ex. \<exists>p b'. broker_get_quote ops' b sy ex = (Some p, b')
                  \<and> p < strat_var_min_price_to_sell cfg'))"
  have H: "H ops cfg" unfolding H_def using find quote by blast
  assume "pe_strike_loop ops cfg cp tq g s \<noteq> None"
  then obtain r where "pe_strike_loop ops cfg cp tq g s = Some r" by auto
  then have "\<not> H ops cfg"
  proof (rule pe_strike_loop.raw_induct[where P = "\<lambda>ops cfg _ _ _ _ _. \<not> H ops cfg", rotated])
    fix f :: "'a broker_ops \<Rightarrow> config \<Rightarrow> real \<Rightarrow> int \<Rightarrow> real \<Rightarrow> 'a strategy
       \<Rightarrow> (handler_exit \<times> 'a strategy) option"
    fix ops cfg cp tq g s r
    assume IH: "\<And>ops cfg cp tq g s r. f ops cfg cp tq g s = Some r \<Longrightarrow> \<not> H ops cfg"
    assume step: "(case broker_find_instrument ops (broker s) (strat_var_symbol_initials cfg) ''PE''
             cp g of
        (None, b1) \<Rightarrow>
          Some (NoInstrument, s\<lparr>broker := b1, log := log s @ [LogNoInstrument ''PE'' g]\<rparr>)
      | (Some inst, b1) \<Rightarrow>
          (case broker_get_quote ops b1 (tradingsymbol inst) (strat_var_exchange cfg) of
             (None, b2) \<Rightarrow> Some (Raised TypeError, s\<lparr>broker := b2\<rparr>)
           | (Some last_price, b2) \<Rightarrow>
               (if last_price < strat_var_min_price_to_sell cfg
                then f ops cfg cp tq
                       (g - strat_var_nifty_lot_size cfg)
                       (s\<lparr>broker := b2, log := log s @ [LogLowPremium last_price]\<rparr>)
                else Some (Traded,
                       (place_order ops cfg (tradingsymbol inst) tq
                          (s\<lparr>broker := b2,
                             log := log s @ [LogExecute ''PE'' (tradingsymbol inst) tq]\<rparr>))
                       \<lparr>pe_reset_gap_flag := 1\<rparr>)))) = Some r"
    show "\<not> H ops cfg"
    proof
      assume h: "H ops cfg"
      then obtain inst b1 where
        1: "broker_find_instrument ops (broker s) (strat_var_symbol_initials cfg) ''PE'' cp g
              = (Some inst, b1)"
        unfolding H_def by blast
      from h obtain p b2 where
        2: "broker_get_quote ops b1 (tradingsymbol inst) (strat_var_exchange cfg) = (Some p, b2)"
        and 3: "p < strat_var_min_price_to_sell cfg"
        unfolding H_def by blast
      from step 1 2 3 have "f ops cfg cp tq (g - strat_var_nifty_lot_size cfg)
                       (s\<lparr>broker := b2, log := log s @ [LogLowPremium p]\<rparr>) = Some r"
        by simp
      from IH[OF this] h show False by simp
    qed
  qed
  with H show False by simp
qed

lemma ce_strike_loop_diverges:
  assumes find: "\<forall>b si ot ltp gap. \<exists>inst b'.
                   broker_find_instrument ops b si ot ltp gap = (Some inst, b')"
    and quote: "\<forall>b sy ex. \<exists>p b'. broker_get_quote ops b sy ex = (Some p, b')
                  \<and> p < strat_var_min_price_to_sell cfg"
  shows "ce_strike_loop ops cfg cp tq g s = None"
proof (rule ccontr)
  define H where "H = (\<lambda>(ops' :: 'a broker_ops) (cfg' :: config).
      (\<forall>b si ot ltp gap. \<exists>inst b'. broker_find_instrument ops' b si ot ltp gap = (Some inst, b'))
    \<and> (\<forall>b sy ex. \<exists>p b'. broker_get_quote ops' b sy ex = (Some p, b')
                  \<and> p < strat_var_min_price_to_sell cfg'))"
  have H: "H ops cfg" unfolding H_def using find quote by blast
  assume "ce_strike_loop ops cfg cp tq g s \<noteq> None"
  then obtain r where "ce_strike_loop ops cfg cp tq g s = Some r" by auto
  then have "\<not> H ops cfg"
  proof (rule ce_strike_loop.raw_induct[where P = "\<lambda>ops cfg _ _ _ _ _. \<not> H ops cfg", rotated])
    fix f :: "'a broker_ops \<Rightarrow> config \<Rightarrow> real \<Rightarrow> int \<Rightarrow> real \<Rightarrow> 'a strategy
       \<Rightarrow> (handler_exit \<times> 'a strategy) option"
    fix ops cfg cp tq g s r
    assume IH: "\<And>ops cfg cp tq g s r. f ops cfg cp tq g s = Some r \<Longrightarrow> \<not> H ops cfg"
    assume step: "(case broker_find_instrument ops (broker s) (strat_var_symbol_initials cfg) ''CE''
             cp g of
        (None, b1) \<Rightarrow>
          Some (NoInstrument, s\<lparr>broker := b1, log := log s @ [LogNoInstrument ''CE'' g]\<rparr>)
      | (Some inst, b1) \<Rightarrow>
          (case broker_get_quote ops b1 (tradingsymbol inst) (strat_var_exchange cfg) of
             (None, b2) \<Rightarrow> Some (Raised TypeError, s\<lparr>broker := b2\<rparr>)
           | (Some last_price, b2) \<Rightarrow>
               (if last_price < strat_var_min_price_to_sell cfg
                then f ops cfg cp tq
                       (g - strat_var_nifty_lot_size cfg)
                       (s\<lparr>broker := b2, log := log s @ [LogLowPremium last_price]\<rparr>)
                else Some (Traded,
                       (place_order ops cfg (tradingsymbol inst) tq
                          (s\<lparr>broker := b2,
                             log := log s @ [LogExecute ''CE'' (tradingsymbol inst) tq]\<rparr>))
                       \<lparr>ce_reset_gap_flag := 1\<rparr>)))) = Some r"
    show "\<not> H ops cfg"
    proof
      assume h: "H ops cfg"
      then obtain inst b1 where
        1: "broker_find_instrument ops (broker s) (strat_var_symbol_initials cfg) ''CE'' cp g
              = (Some inst, b1)"
        unfolding H_def by blast
      from h obtain p b2 where
        2: "broker_get_quote ops b1 (tradingsymbol inst) (strat_var_exchange cfg) = (Some p, b2)"
        and 3: "p < strat_var_min_price_to_sell cfg"
        unfolding H_def by blast
      from step 1 2 3 have "f ops cfg cp tq (g - strat_var_nifty_lot_size cfg)
                       (s\<lparr>broker := b2, log := log s @ [LogLowPremium p]\<rparr>) = Some r"
        by simp
      from IH[OF this] h show False by simp
    qed
  qed
  with H show False by simp
qed


subsection \<open>A trigger that passes the risk gate\<close>

lemma handle_pe_trade_passed_not_breach:
  assumes "nifty_pe_last_value s < cp"
    and "strat_var_pe_gap cfg < py_round (cp - nifty_pe_last_value s)"
    and "strat_var_pe_gap cfg \<noteq> 0"
    and "\<not> strat_var_sell_multiplier_threshold cfg
           < of_int (py_int (py_round (cp - nifty_pe_last_value s) / strat_var_pe_gap cfg))"
  shows "handle_pe_trade ops cfg cp s \<noteq> Some (Breach k, s')"
proof
  assume "handle_pe_trade ops cfg cp s = Some (Breach k, s')"
  with assms have "pe_strike_loop ops cfg cp
      (py_int (py_round (cp - nifty_pe_last_value s) / strat_var_pe_gap cfg) * strat_var_pe_quantity cfg)
      (strat_var_pe_symbol_gap cfg)
      (s\<lparr>nifty_pe_last_value := nifty_pe_last_value s + strat_var_pe_gap cfg *
           of_int (py_int (py_round (cp - nifty_pe_last_value s) / strat_var_pe_gap cfg))\<rparr>)
      = Some (Breach k, s')"
    by (simp add: handle_pe_trade_fired Let_def)
  from pe_strike_loop_frame[OF this] show False by (simp add: pe_frame_def)
qed

lemma handle_ce_trade_passed_not_breach:
  assumes "cp < nifty_ce_last_value s"
    and "strat_var_ce_gap cfg < py_round (nifty_ce_last_value s - cp)"
    and "strat_var_ce_gap cfg \<noteq> 0"
    and "\<not> strat_var_sell_multiplier_threshold cfg
           < of_int (py_int (py_round (nifty_ce_last_value s - cp) / strat_var_ce_gap cfg))"
  shows "handle_ce_trade ops cfg cp s \<noteq> Some (Breach k, s')"
proof
  assume "handle_ce_trade ops cfg cp s = Some (Breach k, s')"
  with assms have "ce_strike_loop ops cfg cp
      (py_int (py_round (nifty_ce_last_value s - cp) / strat_var_ce_gap cfg) * strat_var_ce_quantity cfg)
      (strat_var_ce_symbol_gap cfg)
      (s\<lparr>nifty_ce_last_value := nifty_ce_last_value s - strat_var_ce_gap cfg *
           of_int (py_int (py_round (nifty_ce_last_value s - cp) / strat_var_ce_gap cfg))\<rparr>)
      = Some (Breach k, s')"
    by (simp add: handle_ce_trade_fired Let_def)
  from ce_strike_loop_frame[OF this] show False by (simp add: ce_frame_def)
qed

subsection \<open>The strategy run on the failing broker\<close>

lemma failing_pe_search:
  "pe_strike_loop failing_broker example_config cp tq 200 s =
     pe_strike_loop failing_broker example_config cp tq 150
       (s\<lparr>broker := broker s, log := log s @ [LogLowPremium 10]\<rparr>)"
  by (subst pe_strike_loop_retry[where inst = "\<lparr>tradingsymbol = ''FAR'', strike = cp - 200\<rparr>"
        and ?b1.0 = "broker s" and p = 10 and ?b2.0 = "broker s"])
     (simp_all add: failing_broker_def example_find_def example_config_def)

lemma failing_pe_search_near:
  "pe_strike_loop failing_broker example_config cp tq 150 s =
     Some (Traded,
       s\<lparr>broker := broker s @ [\<lparr>req_symbol = ''NEAR'', req_quantity = tq, req_price = None,
              req_transaction_type = ''SELL'', req_order_type = ''MARKET'',
              req_variety = ''REGULAR'', req_exchange = ''NFO'', req_product = ''NRML'',
              req_tag = ''Survivor''\<rparr>],
         log := log s @ [LogExecute ''PE'' ''NEAR'' tq, LogOrderFailed ''NEAR'' tq],
         pe_reset_gap_flag := 1\<rparr>)"
  by (subst pe_strike_loop_sell[where inst = "\<lparr>tradingsymbol = ''NEAR'', strike = cp - 150\<rparr>"
        and ?b1.0 = "broker s" and p = 20 and ?b2.0 = "broker s"])
     (simp_all add: failing_broker_def example_find_def example_config_def place_order_def)

subsection \<open>When a trigger fires\<close>

lemma trigger_fired_simps [simp]:
  "\<not> trigger_fired (Some (Stable, s))"
  "\<not> trigger_fired (Some (NoTrigger, s))"
  "trigger_fired (Some (Breach k, s))"
  "trigger_fired (Some (NoInstrument, s))"
  "trigger_fired (Some (Traded, s))"
  "trigger_fired (Some (Raised e, s))"
  "trigger_fired None"
  by (simp_all add: trigger_fired_def)






subsection \<open>The strategy run on the broker without instruments\<close>



subsection \<open>How far a trigger moves a reference\<close>

lemma handle_pe_trade_ref:
  assumes "handle_pe_trade ops cfg cp s = Some (x, s')"
  shows "nifty_pe_last_value s' = nifty_pe_last_value s \<or> nifty_pe_last_value s' \<le> cp + 1 / 2"
proof (cases "nifty_pe_last_value s < cp
    \<and> strat_var_pe_gap cfg < py_round (cp - nifty_pe_last_value s) \<and> strat_var_pe_gap cfg \<noteq> 0")
  case False
  with assms show ?thesis
    by (auto simp: handle_pe_trade_def Let_def log_stable_market_def py_truediv_def
        split: if_splits)
next
  case True
  define r where "r = py_round (cp - nifty_pe_last_value s)"
  define g where "g = strat_var_pe_gap cfg"
  from True have lt: "nifty_pe_last_value s < cp" and gr: "g < r" and g0: "g \<noteq> 0"
    by (simp_all add: r_def g_def)
  from lt have "0 \<le> r" unfolding r_def by (intro py_round_nonneg) simp
  from advance_le[OF g0 this gr] have adv: "g * of_int (py_int (r / g)) \<le> r" .
  have rle: "r \<le> cp - nifty_pe_last_value s + 1 / 2"
    unfolding r_def by (rule py_round_le)
  show ?thesis
  proof (cases "strat_var_sell_multiplier_threshold cfg < of_int (py_int (r / g))")
    case b: True
    with True assms show ?thesis
      by (simp add: handle_pe_trade_fired Let_def r_def g_def) auto
  next
    case False
    with True assms have "pe_strike_loop ops cfg cp
        (py_int (r / g) * strat_var_pe_quantity cfg) (strat_var_pe_symbol_gap cfg)
        (s\<lparr>nifty_pe_last_value := nifty_pe_last_value s + g * of_int (py_int (r / g))\<rparr>)
        = Some (x, s')"
      by (simp add: handle_pe_trade_fired Let_def r_def g_def)
    from pe_strike_loop_frame[OF this]
    have "nifty_pe_last_value s' = nifty_pe_last_value s + g * of_int (py_int (r / g))"
      by (simp add: pe_frame_def)
    with adv rle show ?thesis by simp
  qed
qed

lemma handle_ce_trade_ref:
  assumes "handle_ce_trade ops cfg cp s = Some (x, s')"
  shows "nifty_ce_last_value s' = nifty_ce_last_value s \<or> cp - 1 / 2 \<le> nifty_ce_last_value s'"
proof (cases "cp < nifty_ce_last_value s
    \<and> strat_var_ce_gap cfg < py_round (nifty_ce_last_value s - cp) \<and> strat_var_ce_gap cfg \<noteq> 0")
  case False
  with assms show ?thesis
    by (auto simp: handle_ce_trade_def Let_def log_stable_market_def py_truediv_def
        split: if_splits)
next
  case True
  define r where "r = py_round (nifty_ce_last_value s - cp)"
  define g where "g = strat_var_ce_gap cfg"
  from True have lt: "cp < nifty_ce_last_value s" and gr: "g < r" and g0: "g \<noteq> 0"
    by (simp_all add: r_def g_def)
  from lt have "0 \<le> r" unfolding r_def by (intro py_round_nonneg) simp
  from advance_le[OF g0 this gr] have adv: "g * of_int (py_int (r / g)) \<le> r" .
  have rle: "r \<le> nifty_ce_last_value s - cp + 1 / 2"
    unfolding r_def by (rule py_round_le)
  show ?thesis
  proof (cases "strat_var_sell_multiplier_threshold cfg < of_int (py_int (r / g))")
    case b: True
    with True assms show ?thesis
      by (simp add: handle_ce_trade_fired Let_def r_def g_def) auto
  next
    case False
    with True assms have "ce_strike_loop ops cfg cp
        (py_int (r / g) * strat_var_ce_quantity cfg) (strat_var_ce_symbol_gap cfg)
        (s\<lparr>nifty_ce_last_value := nifty_ce_last_value s - g * of_int (py_int (r / g))\<rparr>)
        = Some (x, s')"
      by (simp add: handle_ce_trade_fired Let_def r_def g_def)
    from ce_strike_loop_frame[OF this]
    have "nifty_ce_last_value s' = nifty_ce_last_value s - g * of_int (py_int (r / g))"
      by (simp add: ce_frame_def)
    with adv rle show ?thesis by simp
  qed
qed

subsection \<open>The flags over a tick and over a run\<close>

lemma handle_pe_trade_flags:
  assumes "handle_pe_trade ops cfg cp s = Some (x, s')"
  shows "ce_reset_gap_flag s' = ce_reset_gap_flag s
       \<and> (pe_reset_gap_flag s' = pe_reset_gap_flag s \<or> pe_reset_gap_flag s' = 1)"
proof (cases "nifty_pe_last_value s < cp
    \<and> strat_var_pe_gap cfg < py_round (cp - nifty_pe_last_value s) \<and> strat_var_pe_gap cfg \<noteq> 0")
  case False
  with assms show ?thesis
    by (auto simp: handle_pe_trade_def Let_def log_stable_market_def py_truediv_def
        split: if_splits)
next
  case True
  show ?thesis
  proof (cases "strat_var_sell_multiplier_threshold cfg
      < of_int (py_int (py_round (cp - nifty_pe_last_value s) / strat_var_pe_gap cfg))")
    case b: True
    with True assms show ?thesis
      by (simp add: handle_pe_trade_fired Let_def) auto
  next
    case False
    with True assms have "pe_strike_loop ops cfg cp
        (py_int (py_round (cp - nifty_pe_last_value s) / strat_var_pe_gap cfg)
           * strat_var_pe_quantity cfg) (strat_var_pe_symbol_gap cfg)
        (s\<lparr>nifty_pe_last_value := nifty_pe_last_value s + strat_var_pe_gap cfg
           * of_int (py_int (py_round (cp - nifty_pe_last_value s) / strat_var_pe_gap cfg))\<rparr>)
        = Some (x, s')"
      by (simp add: handle_pe_trade_fired Let_def)
    from pe_strike_loop_frame[OF this] show ?thesis
      by (auto simp: pe_frame_def)
  qed
qed

lemma handle_ce_trade_flags:
  assumes "handle_ce_trade ops cfg cp s = Some (x, s')"
  shows "pe_reset_gap_flag s' = pe_reset_gap_flag s
       \<and> (ce_reset_gap_flag s' = ce_reset_gap_flag s \<or> ce_reset_gap_flag s' = 1)"
proof (cases "cp < nifty_ce_last_value s
    \<and> strat_var_ce_gap cfg < py_round (nifty_ce_last_value s - cp) \<and> strat_var_ce_gap cfg \<noteq> 0")
  case False
  with assms show ?thesis
    by (auto simp: handle_ce_trade_def Let_def log_stable_market_def py_truediv_def
        split: if_splits)
next
  case True
  show ?thesis
  proof (cases "strat_var_sell_multiplier_threshold cfg
      < of_int (py_int (py_round (nifty_ce_last_value s - cp) / strat_var_ce_gap cfg))")
    case b: True
    with True assms show ?thesis
      by (simp add: handle_ce_trade_fired Let_def) auto
  next
    case False
    with True assms have "ce_strike_loop ops cfg cp
        (py_int (py_round (nifty_ce_last_value s - cp) / strat_var_ce_gap cfg)
           * strat_var_ce_quantity cfg) (strat_var_ce_symbol_gap cfg)
        (s\<lparr>nifty_ce_last_value := nifty_ce_last_value s - strat_var_ce_gap cfg
           * of_int (py_int (py_round (nifty_ce_last_value s - cp) / strat_var_ce_gap cfg))\<rparr>)
        = Some (x, s')"
      by (simp add: handle_ce_trade_fired Let_def)
    from ce_strike_loop_frame[OF this] show ?thesis
      by (auto simp: ce_frame_def)
  qed
qed

lemma reset_reference_values_flags:
  "pe_reset_gap_flag (reset_reference_values cfg cp s) = pe_reset_gap_flag s"
  "ce_reset_gap_flag (reset_reference_values cfg cp s) = ce_reset_gap_flag s"
  by (simp_all add: reset_reference_values_def Let_def)

text \<open>A flag is armed when it is truthy.\<close>

lemma on_ticks_update_flags:
  assumes "on_ticks_update ops cfg cp s = Some (e, s')"
  shows "(pe_reset_gap_flag s \<noteq> 0 \<longrightarrow> pe_reset_gap_flag s' \<noteq> 0)
       \<and> (ce_reset_gap_flag s \<noteq> 0 \<longrightarrow> ce_reset_gap_flag s' \<noteq> 0)"
proof (cases "handle_pe_trade ops cfg cp s")
  case None
  with assms show ?thesis by (simp add: on_ticks_update_def)
next
  case (Some r1)
  obtain x1 s1 where r1: "r1 = (x1, s1)" by (cases r1)
  note pe = handle_pe_trade_flags[OF Some[unfolded r1]]
  show ?thesis
  proof (cases "\<exists>err. x1 = Raised err")
    case True
    with assms Some r1 have "s' = s1" by (auto simp: on_ticks_update_def)
    with pe show ?thesis by auto
  next
    case nr: False
    show ?thesis
    proof (cases "handle_ce_trade ops cfg cp s1")
      case None
      with assms Some r1 nr show ?thesis
        by (cases x1) (simp_all add: on_ticks_update_def)
    next
      case ce_some: (Some r2)
      obtain x2 s2 where r2: "r2 = (x2, s2)" by (cases r2)
      note ce = handle_ce_trade_flags[OF ce_some[unfolded r2]]
      from assms Some r1 nr ce_some r2
      have "s' = s2 \<or> s' = reset_reference_values cfg cp s2"
        by (cases x1; cases x2) (auto simp: on_ticks_update_def)
      with pe ce show ?thesis
        by (auto simp: reset_reference_values_flags)
    qed
  qed
qed

lemma main_loop_flags:
  "main_loop ops cfg ticks s = Some s' \<Longrightarrow>
     (pe_reset_gap_flag s \<noteq> 0 \<longrightarrow> pe_reset_gap_flag s' \<noteq> 0)
   \<and> (ce_reset_gap_flag s \<noteq> 0 \<longrightarrow> ce_reset_gap_flag s' \<noteq> 0)"
proof (induction ticks arbitrary: s)
  case Nil
  then show ?case by simp
next
  case (Cons t ts)
  from Cons.prems obtain e s1 where
    1: "on_ticks_update ops cfg t s = Some (e, s1)" and 2: "main_loop ops cfg ts s1 = Some s'"
    by (auto split: option.splits)
  from on_ticks_update_flags[OF 1] Cons.IH[OF 2] show ?case by blast
qed

subsection \<open>Runs of whole ticks on the example broker\<close>

lemma armed_run:
  "main_loop example_broker example_config [24480, 24470] armed_state =
     Some \<lparr>pe_reset_gap_flag = 1, ce_reset_gap_flag = 1,
           nifty_pe_last_value = 24520, nifty_ce_last_value = 24430,
           order_manager = [], broker = [],
           log = [LogStable 24550 24400 24480, LogStable 24550 24400 24480,
                  LogResetPE 24550 24530, LogResetCE 24400 24430,
                  LogStable 24530 24430 24470, LogStable 24530 24430 24470,
                  LogResetPE 24530 24520]\<rparr>"
  by (simp add: on_ticks_update_def handle_pe_trade_def handle_ce_trade_def
      reset_reference_values_def log_stable_market_def example_config_def armed_state_def Let_def)

lemma example_tick:
  "on_ticks_update example_broker example_config 24530 example_state =
     Some (None,
       \<lparr>pe_reset_gap_flag = 1, ce_reset_gap_flag = 0,
        nifty_pe_last_value = 24525, nifty_ce_last_value = 24500,
        order_manager = [\<lparr>det_order_id = 1001, det_symbol = ''NEAR'',
             det_transaction_type = ''SELL'', det_quantity = 75, det_price = None\<rparr>],
        broker = [\<lparr>req_symbol = ''NEAR'', req_quantity = 75, req_price = None,
              req_transaction_type = ''SELL'', req_order_type = ''MARKET'',
              req_variety = ''REGULAR'', req_exchange = ''NFO'', req_product = ''NRML'',
              req_tag = ''Survivor''\<rparr>],
        log = [LogLowPremium 10, LogExecute ''PE'' ''NEAR'' 75, LogPlacing ''NEAR'' 75,
               LogStable 24525 24500 24530]\<rparr>)"
  by (simp add: on_ticks_update_def example_pe_trade)
     (simp add: handle_ce_trade_def reset_reference_values_def log_stable_market_def
        example_config_def Let_def)


lemma armed_tick:
  "on_ticks_update example_broker example_config 24480 armed_state =
     Some (None,
       \<lparr>pe_reset_gap_flag = 1, ce_reset_gap_flag = 1,
        nifty_pe_last_value = 24530, nifty_ce_last_value = 24430,
        order_manager = [], broker = [],
        log = [LogStable 24550 24400 24480, LogStable 24550 24400 24480,
               LogResetPE 24550 24530, LogResetCE 24400 24430]\<rparr>)"
  by (simp add: on_ticks_update_def handle_pe_trade_def handle_ce_trade_def
      reset_reference_values_def log_stable_market_def example_config_def armed_state_def Let_def)

text \<open>Over exact reals a trigger moves a reference to within one half of the price.\<close>

lemma advance_within_half_exact:
  "(handle_pe_trade ops cfg cp s = Some (x, s')
      \<and> nifty_pe_last_value s' \<noteq> nifty_pe_last_value s
    \<longrightarrow> nifty_pe_last_value s' \<le> cp + 1 / 2)
   \<and> (handle_ce_trade ops cfg cp s = Some (y, t)
      \<and> nifty_ce_last_value t \<noteq> nifty_ce_last_value s
    \<longrightarrow> cp - 1 / 2 \<le> nifty_ce_last_value t)"
  using handle_pe_trade_ref[of ops cfg cp s x s'] handle_ce_trade_ref[of ops cfg cp s y t]
  by blast

subsection \<open>Rounding to a double\<close>

lemma py_round_abs_err: "\<bar>py_round y - y\<bar> \<le> 1 / 2"
  using py_round_le[of y] py_round_ge[of y] by linarith

lemma double_round_err: "\<bar>double_round x - x\<bar> \<le> \<bar>x\<bar> / 2 ^ 53"
proof (cases "x = 0")
  case True
  then show ?thesis by (simp add: double_round_def)
next
  case False
  define e where "e = \<lfloor>Transcendental.log 2 \<bar>x\<bar>\<rfloor>"
  define u where "u = (2::real) powr (of_int (e - 52))"
  have upos: "0 < u" by (simp add: u_def)
  have dr: "double_round x = u * py_round (x / u)"
    using False by (simp add: double_round_def e_def u_def Let_def)
  have "2 powr (of_int e) \<le> \<bar>x\<bar>"
    using False floor_log_eq_powr_iff[of "\<bar>x\<bar>" 2 e] by (simp add: e_def)
  moreover have "u = 2 powr (of_int e) / 2 ^ 52"
    by (simp add: u_def powr_diff)
  ultimately have ule: "u * 2 ^ 52 \<le> \<bar>x\<bar>" by simp
  have "double_round x - x = u * (py_round (x / u) - x / u)"
    using upos by (simp add: dr algebra_simps)
  then have "\<bar>double_round x - x\<bar> = u * \<bar>py_round (x / u) - x / u\<bar>"
    using upos by (simp add: abs_mult)
  also have "\<dots> \<le> u * (1 / 2)"
    using upos py_round_abs_err[of "x / u"] by (intro mult_left_mono) simp_all
  also have "\<dots> = (u * 2 ^ 52) / 2 ^ 53" by simp
  also have "\<dots> \<le> \<bar>x\<bar> / 2 ^ 53" using ule by (intro divide_right_mono) simp_all
  finally show ?thesis .
qed

lemma double_round_binade:
  assumes "2 ^ n \<le> \<bar>x\<bar>" "\<bar>x\<bar> < 2 ^ Suc n" "n \<le> 52"
  shows "double_round x = py_round (x * 2 ^ (52 - n)) / 2 ^ (52 - n)"
proof -
  from assms have x0: "x \<noteq> 0" by auto
  have "\<lfloor>Transcendental.log 2 \<bar>x\<bar>\<rfloor> = int n"
    using x0 assms floor_log_eq_powr_iff[of "\<bar>x\<bar>" 2 "int n"]
    by (simp add: powr_realpow powr_add)
  moreover have "2 powr (of_int (int n - 52)) = 1 / (2::real) ^ (52 - n)"
    using assms(3) by (simp add: powr_diff powr_realpow power_diff)
  ultimately show ?thesis using x0
    by (simp add: double_round_def Let_def)
qed

lemma double_round_upper: "double_round x \<le> x + \<bar>x\<bar> / 2 ^ 53"
  using abs_le_D1[OF double_round_err[of x]] by simp

lemma double_round_lower: "x - \<bar>x\<bar> / 2 ^ 53 \<le> double_round x"
  using abs_le_D2[OF double_round_err[of x]] by simp

lemma double_round_abs_le: "\<bar>double_round x\<bar> \<le> (1 + 1 / 2 ^ 53) * \<bar>x\<bar>"
proof -
  have "\<bar>double_round x\<bar> \<le> \<bar>double_round x - x\<bar> + \<bar>x\<bar>"
    by (rule abs_triangle_ineq4[of "double_round x - x" "- x", simplified])
  also have "\<dots> \<le> \<bar>x\<bar> / 2 ^ 53 + \<bar>x\<bar>"
    using double_round_err[of x] by simp
  also have "\<dots> = (1 + 1 / 2 ^ 53) * \<bar>x\<bar>" by (simp add: algebra_simps)
  finally show ?thesis .
qed

lemma double_round_nonneg: "0 \<le> x \<Longrightarrow> 0 \<le> double_round x"
proof -
  assume x: "0 \<le> x"
  have "x / 2 ^ 53 \<le> x" using x by (simp add: field_simps)
  with double_round_lower[of x] x show ?thesis by simp
qed

lemma py_int_abs_le: "\<bar>of_int (py_int x)\<bar> \<le> \<bar>x\<bar>"
  unfolding py_int_def by (auto; linarith)

text \<open>
  The advance as the doubles give it, against the rounded difference: each of the two
  roundings, of the quotient and of the product, costs a factor of at most \<open>1 + 2 ^ - 53\<close>.
\<close>

lemma double_advance_le:
  assumes "0 \<le> r" "g \<noteq> 0"
  shows "\<bar>double_round (g * of_int (py_int (double_round (r / g))))\<bar>
           \<le> (1 + 1 / 2 ^ 53) * ((1 + 1 / 2 ^ 53) * r)"
proof -
  define q where "q = double_round (r / g)"
  define m :: real where "m = of_int (py_int q)"
  have "\<bar>q\<bar> \<le> (1 + 1 / 2 ^ 53) * \<bar>r / g\<bar>"
    unfolding q_def by (rule double_round_abs_le)
  moreover have "\<bar>m\<bar> \<le> \<bar>q\<bar>" unfolding m_def by (rule py_int_abs_le)
  ultimately have "\<bar>m\<bar> \<le> (1 + 1 / 2 ^ 53) * \<bar>r / g\<bar>" by linarith
  then have "\<bar>g\<bar> * \<bar>m\<bar> \<le> \<bar>g\<bar> * ((1 + 1 / 2 ^ 53) * \<bar>r / g\<bar>)"
    by (intro mult_left_mono) simp_all
  also have "\<dots> = (1 + 1 / 2 ^ 53) * r"
    using assms by (simp add: abs_mult abs_divide)
  finally have gm: "\<bar>g * m\<bar> \<le> (1 + 1 / 2 ^ 53) * r" by (simp add: abs_mult)
  have "\<bar>double_round (g * m)\<bar> \<le> (1 + 1 / 2 ^ 53) * \<bar>g * m\<bar>"
    by (rule double_round_abs_le)
  also have "\<dots> \<le> (1 + 1 / 2 ^ 53) * ((1 + 1 / 2 ^ 53) * r)"
    using gm by (intro mult_left_mono) simp_all
  finally show ?thesis by (simp add: m_def q_def)
qed

lemma double_pe_advance_bound:
  assumes "0 \<le> ref" "ref < cp" "g \<noteq> 0"
  shows "double_round (ref + double_round (g * of_int (py_int (double_round
            (py_round (double_round (cp - ref)) / g)))))
           \<le> cp + 1 / 2 + (cp + 1) / 2 ^ 50"
proof -
  define d where "d = double_round (cp - ref)"
  define r where "r = py_round d"
  define a where "a = double_round (g * of_int (py_int (double_round (r / g))))"
  define A where "A = \<bar>a\<bar>"
  define N where "N = double_round (ref + a)"
  have d1: "d \<le> (cp - ref) + (cp - ref) / 2 ^ 53"
    using double_round_upper[of "cp - ref"] assms(2) unfolding d_def by simp
  have d0: "0 \<le> d" unfolding d_def using assms(2) by (intro double_round_nonneg) simp
  have r1: "r \<le> d + 1 / 2" unfolding r_def by (rule py_round_le)
  have r0: "0 \<le> r" unfolding r_def using d0 by (rule py_round_nonneg)
  have c: "(1 + 1 / 2 ^ 53) * (1 + 1 / 2 ^ 53) \<le> (1 + 3 / 2 ^ 53 :: real)" by simp
  have "A \<le> (1 + 1 / 2 ^ 53) * ((1 + 1 / 2 ^ 53) * r)"
    unfolding A_def a_def using r0 assms(3) by (rule double_advance_le)
  also have "\<dots> = ((1 + 1 / 2 ^ 53) * (1 + 1 / 2 ^ 53)) * r" by simp
  also have "\<dots> \<le> (1 + 3 / 2 ^ 53) * r"
    using c r0 by (rule mult_right_mono)
  finally have a1: "A \<le> r + 3 * r / 2 ^ 53" by (simp add: algebra_simps)
  have a2: "a \<le> A" "0 \<le> A" by (simp_all add: A_def)
  have "\<bar>ref + a\<bar> \<le> ref + A" using assms(1) by (simp add: A_def)
  then have "\<bar>ref + a\<bar> / 2 ^ 53 \<le> (ref + A) / 2 ^ 53"
    by (intro divide_right_mono) simp_all
  with double_round_upper[of "ref + a"]
  have n1: "N \<le> (ref + a) + (ref + A) / 2 ^ 53" unfolding N_def by linarith
  have "N \<le> cp + 1 / 2 + (cp + 1) / 2 ^ 50"
    using d1 r1 a1 a2 n1 assms(1,2) by simp argo
  then show ?thesis by (simp add: N_def a_def r_def d_def)
qed

lemma double_ce_advance_bound:
  assumes "0 \<le> cp" "cp < ref" "g \<noteq> 0"
  shows "cp - 1 / 2 - (ref + 1) / 2 ^ 50
           \<le> double_round (ref - double_round (g * of_int (py_int (double_round
                (py_round (double_round (ref - cp)) / g)))))"
proof -
  define d where "d = double_round (ref - cp)"
  define r where "r = py_round d"
  define a where "a = double_round (g * of_int (py_int (double_round (r / g))))"
  define A where "A = \<bar>a\<bar>"
  define N where "N = double_round (ref - a)"
  have d1: "d \<le> (ref - cp) + (ref - cp) / 2 ^ 53"
    using double_round_upper[of "ref - cp"] assms(2) unfolding d_def by simp
  have d0: "0 \<le> d" unfolding d_def using assms(2) by (intro double_round_nonneg) simp
  have r1: "r \<le> d + 1 / 2" unfolding r_def by (rule py_round_le)
  have r0: "0 \<le> r" unfolding r_def using d0 by (rule py_round_nonneg)
  have c: "(1 + 1 / 2 ^ 53) * (1 + 1 / 2 ^ 53) \<le> (1 + 3 / 2 ^ 53 :: real)" by simp
  have "A \<le> (1 + 1 / 2 ^ 53) * ((1 + 1 / 2 ^ 53) * r)"
    unfolding A_def a_def using r0 assms(3) by (rule double_advance_le)
  also have "\<dots> = ((1 + 1 / 2 ^ 53) * (1 + 1 / 2 ^ 53)) * r" by simp
  also have "\<dots> \<le> (1 + 3 / 2 ^ 53) * r"
    using c r0 by (rule mult_right_mono)
  finally have a1: "A \<le> r + 3 * r / 2 ^ 53" by (simp add: algebra_simps)
  have a2: "a \<le> A" "0 \<le> A" by (simp_all add: A_def)
  have "\<bar>ref - a\<bar> \<le> ref + A" using assms(1,2) by (simp add: A_def)
  then have "\<bar>ref - a\<bar> / 2 ^ 53 \<le> (ref + A) / 2 ^ 53"
    by (intro divide_right_mono) simp_all
  with double_round_lower[of "ref - a"]
  have n1: "(ref - a) - (ref + A) / 2 ^ 53 \<le> N" unfolding N_def by linarith
  have "cp - 1 / 2 - (ref + 1) / 2 ^ 50 \<le> N"
    using d1 r1 a1 a2 n1 assms(1,2) by simp argo
  then show ?thesis by (simp add: N_def a_def r_def d_def)
qed

subsection \<open>The handlers in double precision: frame, trigger and reference\<close>

lemma pe_strike_loop_double_frame:
  "pe_strike_loop_double ops cfg cp tq g s = Some r \<Longrightarrow> pe_frame s r"
  apply (erule pe_strike_loop_double.raw_induct[where P = "\<lambda>_ _ _ _ _ s r. pe_frame s r", rotated])
  apply (simp split: prod.splits option.splits if_splits)
     apply (auto simp add: pe_frame_def)[2]
   apply (blast dest: pe_frame_upd)
  apply (auto simp add: pe_frame_def place_order_frame)
  done

lemma ce_strike_loop_double_frame:
  "ce_strike_loop_double ops cfg cp tq g s = Some r \<Longrightarrow> ce_frame s r"
  apply (erule ce_strike_loop_double.raw_induct[where P = "\<lambda>_ _ _ _ _ s r. ce_frame s r", rotated])
  apply (simp split: prod.splits option.splits if_splits)
     apply (auto simp add: ce_frame_def)[2]
   apply (blast dest: ce_frame_upd)
  apply (auto simp add: ce_frame_def place_order_frame)
  done

lemma handle_pe_trade_double_fired:
  assumes "nifty_pe_last_value s < cp"
    and "strat_var_pe_gap cfg < py_round (double_round (cp - nifty_pe_last_value s))"
    and "strat_var_pe_gap cfg \<noteq> 0"
  shows "handle_pe_trade_double ops cfg cp s =
     (let m = py_int (double_round
                (py_round (double_round (cp - nifty_pe_last_value s)) / strat_var_pe_gap cfg))
      in if strat_var_sell_multiplier_threshold cfg < of_int m
         then Some (Breach m, s\<lparr>log := log s @ [LogBreach m, LogBreach m]\<rparr>)
         else pe_strike_loop_double ops cfg cp (m * strat_var_pe_quantity cfg)
                (strat_var_pe_symbol_gap cfg)
                (s\<lparr>nifty_pe_last_value :=
                     double_round (nifty_pe_last_value s
                       + double_round (strat_var_pe_gap cfg * of_int m))\<rparr>))"
  using assms
  by (simp add: handle_pe_trade_double_def py_truediv_def check_sell_multiplier_breach_def Let_def)

lemma handle_ce_trade_double_fired:
  assumes "cp < nifty_ce_last_value s"
    and "strat_var_ce_gap cfg < py_round (double_round (nifty_ce_last_value s - cp))"
    and "strat_var_ce_gap cfg \<noteq> 0"
  shows "handle_ce_trade_double ops cfg cp s =
     (let m = py_int (double_round
                (py_round (double_round (nifty_ce_last_value s - cp)) / strat_var_ce_gap cfg))
      in if strat_var_sell_multiplier_threshold cfg < of_int m
         then Some (Breach m, s\<lparr>log := log s @ [LogBreach m, LogBreach m]\<rparr>)
         else ce_strike_loop_double ops cfg cp (m * strat_var_ce_quantity cfg)
                (strat_var_ce_symbol_gap cfg)
                (s\<lparr>nifty_ce_last_value :=
                     double_round (nifty_ce_last_value s
                       - double_round (strat_var_ce_gap cfg * of_int m))\<rparr>))"
  using assms
  by (simp add: handle_ce_trade_double_def py_truediv_def check_sell_multiplier_breach_def Let_def)

lemma handle_pe_trade_double_ref:
  assumes "handle_pe_trade_double ops cfg cp s = Some (x, s')"
    and "0 \<le> nifty_pe_last_value s"
  shows "nifty_pe_last_value s' = nifty_pe_last_value s
       \<or> nifty_pe_last_value s' \<le> cp + 1 / 2 + (cp + 1) / 2 ^ 50"
proof (cases "nifty_pe_last_value s < cp
    \<and> strat_var_pe_gap cfg < py_round (double_round (cp - nifty_pe_last_value s))
    \<and> strat_var_pe_gap cfg \<noteq> 0")
  case False
  with assms(1) show ?thesis
    by (auto simp: handle_pe_trade_double_def Let_def log_stable_market_def py_truediv_def
        split: if_splits)
next
  case True
  define m where "m = py_int (double_round
      (py_round (double_round (cp - nifty_pe_last_value s)) / strat_var_pe_gap cfg))"
  show ?thesis
  proof (cases "strat_var_sell_multiplier_threshold cfg < of_int m")
    case b: True
    with True assms(1) show ?thesis
      by (simp add: handle_pe_trade_double_fired Let_def m_def) auto
  next
    case False
    with True assms(1) have "pe_strike_loop_double ops cfg cp
        (m * strat_var_pe_quantity cfg) (strat_var_pe_symbol_gap cfg)
        (s\<lparr>nifty_pe_last_value := double_round (nifty_pe_last_value s
             + double_round (strat_var_pe_gap cfg * of_int m))\<rparr>)
        = Some (x, s')"
      by (simp add: handle_pe_trade_double_fired Let_def m_def)
    from pe_strike_loop_double_frame[OF this]
    have "nifty_pe_last_value s' = double_round (nifty_pe_last_value s
             + double_round (strat_var_pe_gap cfg * of_int m))"
      by (simp add: pe_frame_def)
    with double_pe_advance_bound[of "nifty_pe_last_value s" cp "strat_var_pe_gap cfg"]
      assms(2) True
    show ?thesis by (simp add: m_def)
  qed
qed

lemma handle_ce_trade_double_ref:
  assumes "handle_ce_trade_double ops cfg cp s = Some (x, s')"
    and "0 \<le> cp"
  shows "nifty_ce_last_value s' = nifty_ce_last_value s
       \<or> cp - 1 / 2 - (nifty_ce_last_value s + 1) / 2 ^ 50 \<le> nifty_ce_last_value s'"
proof (cases "cp < nifty_ce_last_value s
    \<and> strat_var_ce_gap cfg < py_round (double_round (nifty_ce_last_value s - cp))
    \<and> strat_var_ce_gap cfg \<noteq> 0")
  case False
  with assms(1) show ?thesis
    by (auto simp: handle_ce_trade_double_def Let_def log_stable_market_def py_truediv_def
        split: if_splits)
next
  case True
  define m where "m = py_int (double_round
      (py_round (double_round (nifty_ce_last_value s - cp)) / strat_var_ce_gap cfg))"
  show ?thesis
  proof (cases "strat_var_sell_multiplier_threshold cfg < of_int m")
    case b: True
    with True assms(1) show ?thesis
      by (simp add: handle_ce_trade_double_fired Let_def m_def) auto
  next
    case False
    with True assms(1) have "ce_strike_loop_double ops cfg cp
        (m * strat_var_ce_quantity cfg) (strat_var_ce_symbol_gap cfg)
        (s\<lparr>nifty_ce_last_value := double_round (nifty_ce_last_value s
             - double_round (strat_var_ce_gap cfg * of_int m))\<rparr>)
        = Some (x, s')"
      by (simp add: handle_ce_trade_double_fired Let_def m_def)
    from ce_strike_loop_double_frame[OF this]
    have "nifty_ce_last_value s' = double_round (nifty_ce_last_value s
             - double_round (strat_var_ce_gap cfg * of_int m))"
      by (simp add: ce_frame_def)
    with double_ce_advance_bound[of cp "nifty_ce_last_value s" "strat_var_ce_gap cfg"]
      assms(2) True
    show ?thesis by (simp add: m_def)
  qed
qed

lemma pe_strike_loop_double_sell:
  "broker_find_instrument ops (broker s) (strat_var_symbol_initials cfg) ''PE'' cp g = (Some inst, b1)
   \<Longrightarrow> broker_get_quote ops b1 (tradingsymbol inst) (strat_var_exchange cfg) = (Some p, b2)
   \<Longrightarrow> strat_var_min_price_to_sell cfg \<le> p
   \<Longrightarrow> pe_strike_loop_double ops cfg cp tq g s =
         Some (Traded,
               (place_order ops cfg (tradingsymbol inst) tq
                  (s\<lparr>broker := b2, log := log s @ [LogExecute ''PE'' (tradingsymbol inst) tq]\<rparr>))
               \<lparr>pe_reset_gap_flag := 1\<rparr>)"
  by (subst pe_strike_loop_double.simps) simp

lemma pe_strike_loop_double_retry:
  "broker_find_instrument ops (broker s) (strat_var_symbol_initials cfg) ''PE'' cp g = (Some inst, b1)
   \<Longrightarrow> broker_get_quote ops b1 (tradingsymbol inst) (strat_var_exchange cfg) = (Some p, b2)
   \<Longrightarrow> p < strat_var_min_price_to_sell cfg
   \<Longrightarrow> pe_strike_loop_double ops cfg cp tq g s =
         pe_strike_loop_double ops cfg cp tq (double_round (g - strat_var_nifty_lot_size cfg))
           (s\<lparr>broker := b2, log := log s @ [LogLowPremium p]\<rparr>)"
  by (subst pe_strike_loop_double.simps) simp

lemma ce_strike_loop_double_none:
  "broker_find_instrument ops (broker s) (strat_var_symbol_initials cfg) ''CE'' cp g = (None, b1)
   \<Longrightarrow> ce_strike_loop_double ops cfg cp tq g s =
         Some (NoInstrument, s\<lparr>broker := b1, log := log s @ [LogNoInstrument ''CE'' g]\<rparr>)"
  by (subst ce_strike_loop_double.simps) simp

subsection \<open>The handlers in double precision on the example broker\<close>

lemma double_round_values:
  "double_round (99 / 2) = 99 / 2"
  "double_round 2 = 2"
  "double_round 50 = 50"
  "double_round 150 = 150"
  "double_round 24450 = 24450"
  "double_round (9007204752299131 / 274877906944) = 9007204752299132 / 274877906944"
  "double_round (6816972092211 / 137438953472) = 6816972092211 / 137438953472"
  apply (subst double_round_binade[where n = 5], simp_all add: py_round_def Let_def)[1]
  apply (subst double_round_binade[where n = 1], simp_all add: py_round_def Let_def)[1]
  apply (subst double_round_binade[where n = 5], simp_all add: py_round_def Let_def)[1]
  apply (subst double_round_binade[where n = 7], simp_all add: py_round_def Let_def)[1]
  apply (subst double_round_binade[where n = 14], simp_all add: py_round_def Let_def)[1]
  apply (subst double_round_binade[where n = 15], simp_all add: py_round_def Let_def)[1]
  apply (subst double_round_binade[where n = 5], simp_all add: py_round_def Let_def)[1]
  done

text \<open>The doubles that the decimal literals 32718.02, 32767.52 and 24450.4 denote.\<close>

lemma double_literals:
  "double_round (3271802 / 100) = 8993460856951931 / 2 ^ 38"
  "double_round (3276752 / 100) = 9007067313345659 / 2 ^ 38"
  "double_round (244504 / 10) = 3360437387971789 / 2 ^ 37"
  by (subst double_round_binade[where n = 14], simp_all add: py_round_def Let_def)+

lemma double_pe_trade_across_binade:
  "handle_pe_trade_double example_broker example_config (9007067313345659 / 2 ^ 38)
     (example_state\<lparr>nifty_pe_last_value := 8993460856951931 / 2 ^ 38\<rparr>) =
     Some (Traded,
       \<lparr>pe_reset_gap_flag = 1, ce_reset_gap_flag = 0,
        nifty_pe_last_value = 9007204752299132 / 2 ^ 38, nifty_ce_last_value = 24500,
        order_manager = [\<lparr>det_order_id = 1001, det_symbol = ''NEAR'',
             det_transaction_type = ''SELL'', det_quantity = 150, det_price = None\<rparr>],
        broker = [\<lparr>req_symbol = ''NEAR'', req_quantity = 150, req_price = None,
              req_transaction_type = ''SELL'', req_order_type = ''MARKET'',
              req_variety = ''REGULAR'', req_exchange = ''NFO'', req_product = ''NRML'',
              req_tag = ''Survivor''\<rparr>],
        log = [LogLowPremium 10, LogExecute ''PE'' ''NEAR'' 150, LogPlacing ''NEAR'' 150]\<rparr>)"
proof -
  have d: "(9007067313345659 / 2 ^ 38 - 8993460856951931 / 2 ^ 38 :: real) = 99 / 2"
    by simp
  have r: "py_round (99 / 2) = 50" by (simp add: py_round_def Let_def)
  have "handle_pe_trade_double example_broker example_config (9007067313345659 / 2 ^ 38)
          (example_state\<lparr>nifty_pe_last_value := 8993460856951931 / 2 ^ 38\<rparr>) =
        pe_strike_loop_double example_broker example_config (9007067313345659 / 2 ^ 38) 150 200
          (example_state\<lparr>nifty_pe_last_value := 9007204752299132 / 2 ^ 38\<rparr>)"
    by (subst handle_pe_trade_double_fired)
       (simp_all add: example_config_def example_state_def double_round_values r py_int_def
          Let_def)
  also have "\<dots> = pe_strike_loop_double example_broker example_config
          (9007067313345659 / 2 ^ 38) 150 150
          (example_state\<lparr>nifty_pe_last_value := 9007204752299132 / 2 ^ 38,
             log := [LogLowPremium 10]\<rparr>)"
    by (subst pe_strike_loop_double_retry[where
          inst = "\<lparr>tradingsymbol = ''FAR'', strike = 9007067313345659 / 2 ^ 38 - 200\<rparr>"
          and ?b1.0 = "[]" and p = 10 and ?b2.0 = "[]"])
       (simp_all add: example_broker_def example_find_def example_config_def example_state_def
          double_round_values)
  also have "\<dots> = Some (Traded,
       \<lparr>pe_reset_gap_flag = 1, ce_reset_gap_flag = 0,
        nifty_pe_last_value = 9007204752299132 / 2 ^ 38, nifty_ce_last_value = 24500,
        order_manager = [\<lparr>det_order_id = 1001, det_symbol = ''NEAR'',
             det_transaction_type = ''SELL'', det_quantity = 150, det_price = None\<rparr>],
        broker = [\<lparr>req_symbol = ''NEAR'', req_quantity = 150, req_price = None,
              req_transaction_type = ''SELL'', req_order_type = ''MARKET'',
              req_variety = ''REGULAR'', req_exchange = ''NFO'', req_product = ''NRML'',
              req_tag = ''Survivor''\<rparr>],
        log = [LogLowPremium 10, LogExecute ''PE'' ''NEAR'' 150, LogPlacing ''NEAR'' 150]\<rparr>)"
    by (subst pe_strike_loop_double_sell[where
          inst = "\<lparr>tradingsymbol = ''NEAR'', strike = 9007067313345659 / 2 ^ 38 - 150\<rparr>"
          and ?b1.0 = "[]" and p = 20 and ?b2.0 = "[]"])
       (simp_all add: example_broker_def example_find_def example_config_def example_state_def
          place_order_def)
  finally show ?thesis .
qed


lemma double_ce_trade_rounded:
  "handle_ce_trade_double empty_broker example_config (3360437387971789 / 2 ^ 37) example_state =
     Some (NoInstrument,
       example_state\<lparr>nifty_ce_last_value := 24450, log := [LogNoInstrument ''CE'' 200]\<rparr>)"
proof -
  have r: "py_round (6816972092211 / 137438953472) = 50" by (simp add: py_round_def Let_def)
  have "handle_ce_trade_double empty_broker example_config (3360437387971789 / 2 ^ 37)
          example_state =
        ce_strike_loop_double empty_broker example_config (3360437387971789 / 2 ^ 37) 150 200
          (example_state\<lparr>nifty_ce_last_value := 24450\<rparr>)"
    by (subst handle_ce_trade_double_fired)
       (simp_all add: example_config_def example_state_def double_round_values r py_int_def
          Let_def)
  also have "\<dots> = Some (NoInstrument,
       example_state\<lparr>nifty_ce_last_value := 24450, log := [LogNoInstrument ''CE'' 200]\<rparr>)"
    by (subst ce_strike_loop_double_none[where ?b1.0 = "[]"])
       (simp_all add: empty_broker_def example_state_def)
  finally show ?thesis .
qed

section \<open>The claims\<close>

text \<open>
  Claim C1, as the code has it. The claim says that a trigger rejected by the risk gate has
  already advanced the reference. In \<^verbatim>\<open>_handle_pe_trade\<close> and
  \<^verbatim>\<open>_handle_ce_trade\<close> the risk check returns before the line that advances the
  reference. So on every tick whose trigger fires (non-zero gap) and whose multiplier
  exceeds \<open>sell_multiplier_threshold\<close>, the handler leaves with the state it was given
  plus two log lines: the reference is not advanced, the flag is not set, the broker is
  not called and no order is recorded.
\<close>

theorem risk_rejection_leaves_reference:
  "(nifty_pe_last_value s < cp
      \<and> strat_var_pe_gap cfg < py_round (cp - nifty_pe_last_value s)
      \<and> strat_var_pe_gap cfg \<noteq> 0
      \<and> strat_var_sell_multiplier_threshold cfg
           < of_int (py_int (py_round (cp - nifty_pe_last_value s) / strat_var_pe_gap cfg))
    \<longrightarrow> handle_pe_trade ops cfg cp s =
          Some (Breach (py_int (py_round (cp - nifty_pe_last_value s) / strat_var_pe_gap cfg)),
                s\<lparr>log := log s @
                  [LogBreach (py_int (py_round (cp - nifty_pe_last_value s) / strat_var_pe_gap cfg)),
                   LogBreach (py_int (py_round (cp - nifty_pe_last_value s) / strat_var_pe_gap cfg))]\<rparr>))
   \<and> (cp < nifty_ce_last_value s
      \<and> strat_var_ce_gap cfg < py_round (nifty_ce_last_value s - cp)
      \<and> strat_var_ce_gap cfg \<noteq> 0
      \<and> strat_var_sell_multiplier_threshold cfg
           < of_int (py_int (py_round (nifty_ce_last_value s - cp) / strat_var_ce_gap cfg))
    \<longrightarrow> handle_ce_trade ops cfg cp s =
          Some (Breach (py_int (py_round (nifty_ce_last_value s - cp) / strat_var_ce_gap cfg)),
                s\<lparr>log := log s @
                  [LogBreach (py_int (py_round (nifty_ce_last_value s - cp) / strat_var_ce_gap cfg)),
                   LogBreach (py_int (py_round (nifty_ce_last_value s - cp) / strat_var_ce_gap cfg))]\<rparr>))
   \<and> (handle_pe_trade ops cfg cp s = Some (Breach k, s') \<longrightarrow>
         nifty_pe_last_value s' = nifty_pe_last_value s
         \<and> pe_reset_gap_flag s' = pe_reset_gap_flag s
         \<and> broker s' = broker s \<and> order_manager s' = order_manager s)
   \<and> (handle_ce_trade ops cfg cp s = Some (Breach k, s') \<longrightarrow>
         nifty_ce_last_value s' = nifty_ce_last_value s
         \<and> ce_reset_gap_flag s' = ce_reset_gap_flag s
         \<and> broker s' = broker s \<and> order_manager s' = order_manager s)"
proof (intro conjI impI)
  assume "nifty_pe_last_value s < cp
      \<and> strat_var_pe_gap cfg < py_round (cp - nifty_pe_last_value s)
      \<and> strat_var_pe_gap cfg \<noteq> 0
      \<and> strat_var_sell_multiplier_threshold cfg
           < of_int (py_int (py_round (cp - nifty_pe_last_value s) / strat_var_pe_gap cfg))"
  then show "handle_pe_trade ops cfg cp s =
          Some (Breach (py_int (py_round (cp - nifty_pe_last_value s) / strat_var_pe_gap cfg)),
                s\<lparr>log := log s @
                  [LogBreach (py_int (py_round (cp - nifty_pe_last_value s) / strat_var_pe_gap cfg)),
                   LogBreach (py_int (py_round (cp - nifty_pe_last_value s) / strat_var_pe_gap cfg))]\<rparr>)"
    by (simp add: handle_pe_trade_fired Let_def)
next
  assume "cp < nifty_ce_last_value s
      \<and> strat_var_ce_gap cfg < py_round (nifty_ce_last_value s - cp)
      \<and> strat_var_ce_gap cfg \<noteq> 0
      \<and> strat_var_sell_multiplier_threshold cfg
           < of_int (py_int (py_round (nifty_ce_last_value s - cp) / strat_var_ce_gap cfg))"
  then show "handle_ce_trade ops cfg cp s =
          Some (Breach (py_int (py_round (nifty_ce_last_value s - cp) / strat_var_ce_gap cfg)),
                s\<lparr>log := log s @
                  [LogBreach (py_int (py_round (nifty_ce_last_value s - cp) / strat_var_ce_gap cfg)),
                   LogBreach (py_int (py_round (nifty_ce_last_value s - cp) / strat_var_ce_gap cfg))]\<rparr>)"
    by (simp add: handle_ce_trade_fired Let_def)
qed (auto dest!: handle_pe_trade_breach handle_ce_trade_breach)

text \<open>A PE trigger with multiplier 8 and a CE trigger with multiplier 4, against a ceiling of 3.\<close>

theorem risk_rejection_leaves_reference_witness:
  "handle_pe_trade example_broker example_config 24700 example_state =
     Some (Breach 8, example_state\<lparr>log := [LogBreach 8, LogBreach 8]\<rparr>)
   \<and> handle_ce_trade example_broker example_config 24380 example_state =
     Some (Breach 4, example_state\<lparr>log := [LogBreach 4, LogBreach 4]\<rparr>)
   \<and> nifty_pe_last_value (example_state\<lparr>log := [LogBreach 8, LogBreach 8]\<rparr>) = 24500
   \<and> nifty_ce_last_value (example_state\<lparr>log := [LogBreach 4, LogBreach 4]\<rparr>) = 24500
   \<and> broker (example_state\<lparr>log := [LogBreach 8, LogBreach 8]\<rparr>) = []"
  using risk_rejection_leaves_reference[of example_state 24700 example_config example_broker 8
          "example_state\<lparr>log := [LogBreach 8, LogBreach 8]\<rparr>"]
        risk_rejection_leaves_reference[of example_state 24380 example_config example_broker 4
          "example_state\<lparr>log := [LogBreach 4, LogBreach 4]\<rparr>"]
  by (simp add: example_config_def example_state_def py_int_def)

text \<open>
  The scenario of the claim: reference 24500, gap 25, ceiling 3, tick 24600. The multiplier 4
  is rejected and the reference is still 24500, not 24600.
\<close>

theorem risk_rejection_advance_counterexample:
  "nifty_pe_last_value example_state = 24500
   \<and> strat_var_pe_gap example_config = 25
   \<and> strat_var_sell_multiplier_threshold example_config = 3
   \<and> handle_pe_trade example_broker example_config 24600 example_state =
       Some (Breach 4, example_state\<lparr>log := [LogBreach 4, LogBreach 4]\<rparr>)
   \<and> nifty_pe_last_value (example_state\<lparr>log := [LogBreach 4, LogBreach 4]\<rparr>) \<noteq> 24600"
  by (simp add: handle_pe_trade_def example_config_def example_state_def py_int_def
      py_truediv_def check_sell_multiplier_breach_def Let_def)

text \<open>
  Claim C2, at a failing input. \<^verbatim>\<open>_place_order\<close> logs a failed order and records
  nothing, but it returns nothing to its caller, and the handler sets the flag right after
  the call whatever happened. With a broker that answers \<open>-1\<close>, an unarmed PE side at
  reference 24500 and a tick at 24530: no order is recorded, and the PE flag is 1 all the
  same. The flag is documented as \<^verbatim>\<open>Set to 1 when PE trade is executed\<close>.
\<close>

theorem failed_order_still_arms:
  "pe_reset_gap_flag example_state = 0
   \<and> handle_pe_trade failing_broker example_config 24530 example_state =
     Some (Traded,
       \<lparr>pe_reset_gap_flag = 1, ce_reset_gap_flag = 0,
        nifty_pe_last_value = 24525, nifty_ce_last_value = 24500,
        order_manager = [],
        broker = [\<lparr>req_symbol = ''NEAR'', req_quantity = 75, req_price = None,
              req_transaction_type = ''SELL'', req_order_type = ''MARKET'',
              req_variety = ''REGULAR'', req_exchange = ''NFO'', req_product = ''NRML'',
              req_tag = ''Survivor''\<rparr>],
        log = [LogLowPremium 10, LogExecute ''PE'' ''NEAR'' 75, LogOrderFailed ''NEAR'' 75]\<rparr>)"
proof -
  have "handle_pe_trade failing_broker example_config 24530 example_state =
        pe_strike_loop failing_broker example_config 24530 75 200
          (example_state\<lparr>nifty_pe_last_value := 24525\<rparr>)"
    by (subst handle_pe_trade_fired)
       (simp_all add: example_config_def example_state_def py_int_def)
  then show ?thesis
    by (simp add: failing_pe_search failing_pe_search_near example_state_def)
qed







text \<open>
  Claim C5. The risk gate \<^verbatim>\<open>_check_sell_multiplier_breach\<close> answers true exactly when
  the multiplier is strictly greater than \<open>sell_multiplier_threshold\<close> (a multiplier equal
  to the threshold passes), and it changes no flag. In the handlers, a fired trigger
  (non-zero gap) leaves by the risk gate exactly when its multiplier exceeds the threshold,
  and a handler that leaves by the risk gate has changed neither flag.
\<close>

theorem risk_gate_rejects_iff:
  "(fst (check_sell_multiplier_breach cfg m s)
      \<longleftrightarrow> strat_var_sell_multiplier_threshold cfg < of_int m)
   \<and> (of_int m = strat_var_sell_multiplier_threshold cfg
        \<longrightarrow> \<not> fst (check_sell_multiplier_breach cfg m s))
   \<and> pe_reset_gap_flag (snd (check_sell_multiplier_breach cfg m s)) = pe_reset_gap_flag s
   \<and> ce_reset_gap_flag (snd (check_sell_multiplier_breach cfg m s)) = ce_reset_gap_flag s
   \<and> (nifty_pe_last_value s < cp
        \<and> strat_var_pe_gap cfg < py_round (cp - nifty_pe_last_value s)
        \<and> strat_var_pe_gap cfg \<noteq> 0
      \<longrightarrow> ((\<exists>k s'. handle_pe_trade ops cfg cp s = Some (Breach k, s'))
            \<longleftrightarrow> strat_var_sell_multiplier_threshold cfg
                  < of_int (py_int (py_round (cp - nifty_pe_last_value s) / strat_var_pe_gap cfg))))
   \<and> (cp < nifty_ce_last_value s
        \<and> strat_var_ce_gap cfg < py_round (nifty_ce_last_value s - cp)
        \<and> strat_var_ce_gap cfg \<noteq> 0
      \<longrightarrow> ((\<exists>k s'. handle_ce_trade ops cfg cp s = Some (Breach k, s'))
            \<longleftrightarrow> strat_var_sell_multiplier_threshold cfg
                  < of_int (py_int (py_round (nifty_ce_last_value s - cp) / strat_var_ce_gap cfg))))
   \<and> (handle_pe_trade ops cfg cp s = Some (Breach j, t) \<longrightarrow>
        pe_reset_gap_flag t = pe_reset_gap_flag s \<and> ce_reset_gap_flag t = ce_reset_gap_flag s)
   \<and> (handle_ce_trade ops cfg cp s = Some (Breach j, t) \<longrightarrow>
        pe_reset_gap_flag t = pe_reset_gap_flag s \<and> ce_reset_gap_flag t = ce_reset_gap_flag s)"
proof (intro conjI impI)
  assume a: "nifty_pe_last_value s < cp
        \<and> strat_var_pe_gap cfg < py_round (cp - nifty_pe_last_value s)
        \<and> strat_var_pe_gap cfg \<noteq> 0"
  show "(\<exists>k s'. handle_pe_trade ops cfg cp s = Some (Breach k, s'))
            \<longleftrightarrow> strat_var_sell_multiplier_threshold cfg
                  < of_int (py_int (py_round (cp - nifty_pe_last_value s) / strat_var_pe_gap cfg))"
  proof
    assume "\<exists>k s'. handle_pe_trade ops cfg cp s = Some (Breach k, s')"
    then show "strat_var_sell_multiplier_threshold cfg
                  < of_int (py_int (py_round (cp - nifty_pe_last_value s) / strat_var_pe_gap cfg))"
      using a handle_pe_trade_passed_not_breach[of s cp cfg ops] by blast
  next
    assume "strat_var_sell_multiplier_threshold cfg
                  < of_int (py_int (py_round (cp - nifty_pe_last_value s) / strat_var_pe_gap cfg))"
    with a show "\<exists>k s'. handle_pe_trade ops cfg cp s = Some (Breach k, s')"
      by (simp add: handle_pe_trade_fired Let_def)
  qed
next
  assume a: "cp < nifty_ce_last_value s
        \<and> strat_var_ce_gap cfg < py_round (nifty_ce_last_value s - cp)
        \<and> strat_var_ce_gap cfg \<noteq> 0"
  show "(\<exists>k s'. handle_ce_trade ops cfg cp s = Some (Breach k, s'))
            \<longleftrightarrow> strat_var_sell_multiplier_threshold cfg
                  < of_int (py_int (py_round (nifty_ce_last_value s - cp) / strat_var_ce_gap cfg))"
  proof
    assume "\<exists>k s'. handle_ce_trade ops cfg cp s = Some (Breach k, s')"
    then show "strat_var_sell_multiplier_threshold cfg
                  < of_int (py_int (py_round (nifty_ce_last_value s - cp) / strat_var_ce_gap cfg))"
      using a handle_ce_trade_passed_not_breach[of cp s cfg ops] by blast
  next
    assume "strat_var_sell_multiplier_threshold cfg
                  < of_int (py_int (py_round (nifty_ce_last_value s - cp) / strat_var_ce_gap cfg))"
    with a show "\<exists>k s'. handle_ce_trade ops cfg cp s = Some (Breach k, s')"
      by (simp add: handle_ce_trade_fired Let_def)
  qed
qed (auto simp: check_sell_multiplier_breach_def dest!: handle_pe_trade_breach handle_ce_trade_breach)


text \<open>
  Ceiling 3 and gap 25: a move of 75 (multiplier 3) passes, a move of 100 (multiplier 4) is
  rejected, on either side.
\<close>

theorem risk_gate_rejects_iff_witness:
  "\<not> fst (check_sell_multiplier_breach example_config 3 example_state)
   \<and> fst (check_sell_multiplier_breach example_config 4 example_state)
   \<and> pe_reset_gap_flag (snd (check_sell_multiplier_breach example_config 4 example_state)) = 0
   \<and> (\<exists>k s'. handle_pe_trade example_broker example_config 24600 example_state
                 = Some (Breach k, s'))
   \<and> \<not> (\<exists>k s'. handle_pe_trade example_broker example_config 24575 example_state
                 = Some (Breach k, s'))
   \<and> (\<exists>k s'. handle_ce_trade example_broker example_config 24400 example_state
                 = Some (Breach k, s'))
   \<and> \<not> (\<exists>k s'. handle_ce_trade example_broker example_config 24425 example_state
                 = Some (Breach k, s'))"
  using risk_gate_rejects_iff[of example_config 3 example_state 24600 example_broker]
        risk_gate_rejects_iff[of example_config 4 example_state 24575 example_broker]
        risk_gate_rejects_iff[of example_config 4 example_state 24400 example_broker]
        risk_gate_rejects_iff[of example_config 4 example_state 24425 example_broker]
  by (simp add: example_config_def example_state_def py_int_def)

text \<open>
  Claim C6. The strike search of a handler starts at the side's configured symbol gap (with
  the reference already advanced), and one round of it does this: when the broker finds no
  instrument at the current gap, the search ends without a trade; when it finds one whose
  quoted premium is at least \<open>min_price_to_sell\<close>, that instrument is the one sold and the
  search ends; when the premium is lower, the search goes on at the gap minus
  \<open>nifty_lot_size\<close>.
\<close>

theorem strike_search_rounds:
  "(nifty_pe_last_value s < cp
      \<and> strat_var_pe_gap cfg < py_round (cp - nifty_pe_last_value s)
      \<and> strat_var_pe_gap cfg \<noteq> 0
      \<and> \<not> strat_var_sell_multiplier_threshold cfg
           < of_int (py_int (py_round (cp - nifty_pe_last_value s) / strat_var_pe_gap cfg))
    \<longrightarrow> handle_pe_trade ops cfg cp s =
          pe_strike_loop ops cfg cp
            (py_int (py_round (cp - nifty_pe_last_value s) / strat_var_pe_gap cfg)
               * strat_var_pe_quantity cfg)
            (strat_var_pe_symbol_gap cfg)
            (s\<lparr>nifty_pe_last_value := nifty_pe_last_value s + strat_var_pe_gap cfg
               * of_int (py_int (py_round (cp - nifty_pe_last_value s) / strat_var_pe_gap cfg))\<rparr>))
   \<and> (cp < nifty_ce_last_value s
      \<and> strat_var_ce_gap cfg < py_round (nifty_ce_last_value s - cp)
      \<and> strat_var_ce_gap cfg \<noteq> 0
      \<and> \<not> strat_var_sell_multiplier_threshold cfg
           < of_int (py_int (py_round (nifty_ce_last_value s - cp) / strat_var_ce_gap cfg))
    \<longrightarrow> handle_ce_trade ops cfg cp s =
          ce_strike_loop ops cfg cp
            (py_int (py_round (nifty_ce_last_value s - cp) / strat_var_ce_gap cfg)
               * strat_var_ce_quantity cfg)
            (strat_var_ce_symbol_gap cfg)
            (s\<lparr>nifty_ce_last_value := nifty_ce_last_value s - strat_var_ce_gap cfg
               * of_int (py_int (py_round (nifty_ce_last_value s - cp) / strat_var_ce_gap cfg))\<rparr>))
   \<and> (broker_find_instrument ops (broker s) (strat_var_symbol_initials cfg) ''PE'' cp g
        = (None, b1)
    \<longrightarrow> pe_strike_loop ops cfg cp tq g s =
          Some (NoInstrument, s\<lparr>broker := b1, log := log s @ [LogNoInstrument ''PE'' g]\<rparr>))
   \<and> (broker_find_instrument ops (broker s) (strat_var_symbol_initials cfg) ''PE'' cp g
        = (Some inst, b1)
      \<and> broker_get_quote ops b1 (tradingsymbol inst) (strat_var_exchange cfg) = (Some p, b2)
      \<and> strat_var_min_price_to_sell cfg \<le> p
    \<longrightarrow> pe_strike_loop ops cfg cp tq g s =
          Some (Traded,
                (place_order ops cfg (tradingsymbol inst) tq
                   (s\<lparr>broker := b2,
                      log := log s @ [LogExecute ''PE'' (tradingsymbol inst) tq]\<rparr>))
                \<lparr>pe_reset_gap_flag := 1\<rparr>))
   \<and> (broker_find_instrument ops (broker s) (strat_var_symbol_initials cfg) ''PE'' cp g
        = (Some inst, b1)
      \<and> broker_get_quote ops b1 (tradingsymbol inst) (strat_var_exchange cfg) = (Some p, b2)
      \<and> p < strat_var_min_price_to_sell cfg
    \<longrightarrow> pe_strike_loop ops cfg cp tq g s =
          pe_strike_loop ops cfg cp tq (g - strat_var_nifty_lot_size cfg)
            (s\<lparr>broker := b2, log := log s @ [LogLowPremium p]\<rparr>))
   \<and> (broker_find_instrument ops (broker s) (strat_var_symbol_initials cfg) ''CE'' cp g
        = (None, b1)
    \<longrightarrow> ce_strike_loop ops cfg cp tq g s =
          Some (NoInstrument, s\<lparr>broker := b1, log := log s @ [LogNoInstrument ''CE'' g]\<rparr>))
   \<and> (broker_find_instrument ops (broker s) (strat_var_symbol_initials cfg) ''CE'' cp g
        = (Some inst, b1)
      \<and> broker_get_quote ops b1 (tradingsymbol inst) (strat_var_exchange cfg) = (Some p, b2)
      \<and> strat_var_min_price_to_sell cfg \<le> p
    \<longrightarrow> ce_strike_loop ops cfg cp tq g s =
          Some (Traded,
                (place_order ops cfg (tradingsymbol inst) tq
                   (s\<lparr>broker := b2,
                      log := log s @ [LogExecute ''CE'' (tradingsymbol inst) tq]\<rparr>))
                \<lparr>ce_reset_gap_flag := 1\<rparr>))
   \<and> (broker_find_instrument ops (broker s) (strat_var_symbol_initials cfg) ''CE'' cp g
        = (Some inst, b1)
      \<and> broker_get_quote ops b1 (tradingsymbol inst) (strat_var_exchange cfg) = (Some p, b2)
      \<and> p < strat_var_min_price_to_sell cfg
    \<longrightarrow> ce_strike_loop ops cfg cp tq g s =
          ce_strike_loop ops cfg cp tq (g - strat_var_nifty_lot_size cfg)
            (s\<lparr>broker := b2, log := log s @ [LogLowPremium p]\<rparr>))"
  apply (intro conjI impI)
  subgoal by (simp add: handle_pe_trade_fired Let_def)
  subgoal by (simp add: handle_ce_trade_fired Let_def)
  subgoal by (rule pe_strike_loop_none)
  subgoal by (rule pe_strike_loop_sell) auto
  subgoal by (rule pe_strike_loop_retry) auto
  subgoal by (rule ce_strike_loop_none)
  subgoal by (rule ce_strike_loop_sell) auto
  subgoal by (rule ce_strike_loop_retry) auto
  done

text \<open>
  Start gap 200, lot size 50, minimum premium 15: the candidate at gap 200 quotes 10, the
  search retries at gap 150, that candidate quotes 20 and is the one sold. With a broker
  that finds nothing the search ends at once.
\<close>

theorem strike_search_rounds_witness:
  "strat_var_pe_symbol_gap example_config = 200
   \<and> strat_var_nifty_lot_size example_config = 50
   \<and> strat_var_min_price_to_sell example_config = 15
   \<and> broker_get_quote example_broker [] ''FAR'' ''NFO'' = (Some 10, [])
   \<and> broker_get_quote example_broker [] ''NEAR'' ''NFO'' = (Some 20, [])
   \<and> handle_pe_trade example_broker example_config 24530 example_state
       = pe_strike_loop example_broker example_config 24530 75 200
           (example_state\<lparr>nifty_pe_last_value := 24525\<rparr>)
   \<and> pe_strike_loop example_broker example_config 24530 75 200
         (example_state\<lparr>nifty_pe_last_value := 24525\<rparr>)
       = pe_strike_loop example_broker example_config 24530 75 150
           (example_state\<lparr>nifty_pe_last_value := 24525, log := [LogLowPremium 10]\<rparr>)
   \<and> pe_strike_loop example_broker example_config 24530 75 150
         (example_state\<lparr>nifty_pe_last_value := 24525, log := [LogLowPremium 10]\<rparr>)
       = Some (Traded,
           (place_order example_broker example_config ''NEAR'' 75
              (example_state\<lparr>nifty_pe_last_value := 24525,
                 log := [LogLowPremium 10, LogExecute ''PE'' ''NEAR'' 75]\<rparr>))
           \<lparr>pe_reset_gap_flag := 1\<rparr>)
   \<and> pe_strike_loop empty_broker example_config 24530 75 200 example_state
       = Some (NoInstrument, example_state\<lparr>log := [LogNoInstrument ''PE'' 200]\<rparr>)"
  using strike_search_rounds[where s = "example_state" and cp = 24530 and cfg = example_config
            and ops = example_broker and g = 200 and ?b1.0 = "[]"
            and inst = "\<lparr>tradingsymbol = ''FAR'', strike = 24330\<rparr>" and p = 10
            and ?b2.0 = "[]" and tq = 75]
        strike_search_rounds[where s = "example_state\<lparr>nifty_pe_last_value := 24525\<rparr>" and cp = 24530 and cfg = example_config
            and ops = example_broker and g = 200 and ?b1.0 = "[]"
            and inst = "\<lparr>tradingsymbol = ''FAR'', strike = 24330\<rparr>" and p = 10
            and ?b2.0 = "[]" and tq = 75]
        strike_search_rounds[where s = "example_state\<lparr>nifty_pe_last_value := 24525, log := [LogLowPremium 10]\<rparr>" and cp = 24530 and cfg = example_config
            and ops = example_broker and g = 150 and ?b1.0 = "[]"
            and inst = "\<lparr>tradingsymbol = ''NEAR'', strike = 24380\<rparr>" and p = 20
            and ?b2.0 = "[]" and tq = 75]
        strike_search_rounds[where s = "example_state" and cp = 24530 and cfg = example_config
            and ops = empty_broker and g = 200 and ?b1.0 = "[]"
            and inst = "\<lparr>tradingsymbol = ''FAR'', strike = 24330\<rparr>" and p = 10
            and ?b2.0 = "[]" and tq = 75]
  by (simp add: example_config_def example_state_def example_broker_def empty_broker_def
      example_find_def py_int_def)

text \<open>
  Claim C7. The strike-search loop has no bound: with a broker that finds an instrument at
  every gap and quotes every instrument below the minimum premium, the loop of either
  handler never returns, from whatever gap it starts (there is no floor on the gap and no
  count of rounds).
\<close>

theorem strike_search_unbounded:
  assumes "\<forall>b si ot ltp gap. \<exists>inst b'.
             broker_find_instrument ops b si ot ltp gap = (Some inst, b')"
    and "\<forall>b sy ex. \<exists>p b'. broker_get_quote ops b sy ex = (Some p, b')
           \<and> p < strat_var_min_price_to_sell cfg"
  shows "pe_strike_loop ops cfg cp tq g s = None \<and> ce_strike_loop ops cfg cp tq g s = None"
  using assms by (simp add: pe_strike_loop_diverges ce_strike_loop_diverges)

text \<open>The broker that quotes 1 for everything, against a minimum premium of 15.\<close>

theorem strike_search_unbounded_witness:
  "pe_strike_loop low_premium_broker example_config 24530 75 200 example_state = None
   \<and> ce_strike_loop low_premium_broker example_config 24470 75 200 example_state = None"
  using strike_search_unbounded[of low_premium_broker example_config 24530 75 200 example_state]
    strike_search_unbounded[of low_premium_broker example_config 24470 75 200 example_state]
  by (simp add: low_premium_broker_def example_find_def example_config_def)



text \<open>
  Claim C9. Once a side's flag is set it stays set: over every sequence of ticks that the
  trading loop processes, from any state, a flag that is truthy at the start is truthy at
  the end; the same holds for a single tick, whether it ends normally or by an exception;
  and the reset of the reference values, which may relocate a reference tick after tick,
  never writes a flag.
\<close>

theorem armed_flag_never_cleared:
  "(main_loop ops cfg ticks s = Some s' \<longrightarrow>
      (pe_reset_gap_flag s \<noteq> 0 \<longrightarrow> pe_reset_gap_flag s' \<noteq> 0)
    \<and> (ce_reset_gap_flag s \<noteq> 0 \<longrightarrow> ce_reset_gap_flag s' \<noteq> 0))
   \<and> (on_ticks_update ops cfg cp s = Some (e, t) \<longrightarrow>
      (pe_reset_gap_flag s \<noteq> 0 \<longrightarrow> pe_reset_gap_flag t \<noteq> 0)
    \<and> (ce_reset_gap_flag s \<noteq> 0 \<longrightarrow> ce_reset_gap_flag t \<noteq> 0))
   \<and> pe_reset_gap_flag (reset_reference_values cfg cp s) = pe_reset_gap_flag s
   \<and> ce_reset_gap_flag (reset_reference_values cfg cp s) = ce_reset_gap_flag s"
  using main_loop_flags[of ops cfg ticks s s'] on_ticks_update_flags[of ops cfg cp s e t]
  by (simp add: reset_reference_values_flags)


text \<open>
  Both sides armed, PE reference 24550: ticks at 24480 and 24470 relocate the PE reference
  twice (to 24530, then to 24520) and both flags are still set.
\<close>

theorem armed_flag_never_cleared_witness:
  "pe_reset_gap_flag armed_state \<noteq> 0 \<and> ce_reset_gap_flag armed_state \<noteq> 0
   \<and> (\<exists>s'. main_loop example_broker example_config [24480, 24470] armed_state = Some s'
          \<and> pe_reset_gap_flag s' \<noteq> 0 \<and> ce_reset_gap_flag s' \<noteq> 0
          \<and> nifty_pe_last_value s' = 24520)
   \<and> (\<exists>t. on_ticks_update example_broker example_config 24480 armed_state = Some (None, t)
          \<and> pe_reset_gap_flag t \<noteq> 0 \<and> ce_reset_gap_flag t \<noteq> 0
          \<and> nifty_pe_last_value t = 24530)"
proof -
  have a: "pe_reset_gap_flag armed_state \<noteq> 0" "ce_reset_gap_flag armed_state \<noteq> 0"
    by (simp_all add: armed_state_def)
  obtain s' where run: "main_loop example_broker example_config [24480, 24470] armed_state = Some s'"
    and ref: "nifty_pe_last_value s' = 24520"
    using armed_run by simp
  obtain t where tick: "on_ticks_update example_broker example_config 24480 armed_state = Some (None, t)"
    and ref2: "nifty_pe_last_value t = 24530"
    using armed_tick by simp
  from armed_flag_never_cleared[of example_broker example_config "[24480, 24470]" armed_state s'
         24480 None t] run tick a
  have "pe_reset_gap_flag s' \<noteq> 0" "ce_reset_gap_flag s' \<noteq> 0"
       "pe_reset_gap_flag t \<noteq> 0" "ce_reset_gap_flag t \<noteq> 0"
    by simp_all
  with a run ref tick ref2 show ?thesis by blast
qed

text \<open>
  Claim C10, as the code has it. Over exact reals the advance, the gap times the truncated
  quotient of the rounded difference by the gap, is at most the rounded difference and so
  at most the difference plus one half. The code computes on doubles: the difference, the
  quotient, the product and the stored sum are each rounded. With non-negative prices,
  whenever a handler returns with its reference changed, the new PE reference is at most
  the tick's price plus one half plus \<open>(price + 1) / 2 ^ 50\<close>, and the new CE reference is
  at least the tick's price minus one half minus \<open>(old reference + 1) / 2 ^ 50\<close>, for a gap
  of either sign.
\<close>

theorem advance_within_half_of_price_up_to_rounding:
  "(handle_pe_trade_double ops cfg cp s = Some (x, s')
      \<and> 0 \<le> nifty_pe_last_value s
      \<and> nifty_pe_last_value s' \<noteq> nifty_pe_last_value s
    \<longrightarrow> nifty_pe_last_value s' \<le> cp + 1 / 2 + (cp + 1) / 2 ^ 50)
   \<and> (handle_ce_trade_double ops cfg cp s = Some (y, t)
      \<and> 0 \<le> cp
      \<and> nifty_ce_last_value t \<noteq> nifty_ce_last_value s
    \<longrightarrow> cp - 1 / 2 - (nifty_ce_last_value s + 1) / 2 ^ 50 \<le> nifty_ce_last_value t)"
  using handle_pe_trade_double_ref[of ops cfg cp s x s']
        handle_ce_trade_double_ref[of ops cfg cp s y t]
  by blast


text \<open>
  The doubles of 32718.02 as PE reference and of 32767.52 as tick, and a CE tick at the
  double of 24450.4 under the reference 24500: both references move and stay within the
  bound.
\<close>

theorem advance_within_half_of_price_up_to_rounding_witness:
  "(\<exists>s'. handle_pe_trade_double example_broker example_config (9007067313345659 / 2 ^ 38)
              (example_state\<lparr>nifty_pe_last_value := 8993460856951931 / 2 ^ 38\<rparr>)
             = Some (Traded, s')
          \<and> nifty_pe_last_value s' \<noteq> 8993460856951931 / 2 ^ 38
          \<and> nifty_pe_last_value s'
               \<le> 9007067313345659 / 2 ^ 38 + 1 / 2 + (9007067313345659 / 2 ^ 38 + 1) / 2 ^ 50)
   \<and> (\<exists>t. handle_ce_trade_double empty_broker example_config (3360437387971789 / 2 ^ 37)
              example_state
             = Some (NoInstrument, t)
          \<and> nifty_ce_last_value t \<noteq> nifty_ce_last_value example_state
          \<and> nifty_ce_last_value t < 3360437387971789 / 2 ^ 37
          \<and> 3360437387971789 / 2 ^ 37 - 1 / 2 - (nifty_ce_last_value example_state + 1) / 2 ^ 50
               \<le> nifty_ce_last_value t)"
proof -
  obtain s' where pe: "handle_pe_trade_double example_broker example_config
        (9007067313345659 / 2 ^ 38)
        (example_state\<lparr>nifty_pe_last_value := 8993460856951931 / 2 ^ 38\<rparr>) = Some (Traded, s')"
    and pe_ref: "nifty_pe_last_value s' = 9007204752299132 / 2 ^ 38"
    using double_pe_trade_across_binade by simp
  obtain t where ce: "handle_ce_trade_double empty_broker example_config
        (3360437387971789 / 2 ^ 37) example_state = Some (NoInstrument, t)"
    and ce_ref: "nifty_ce_last_value t = 24450"
    using double_ce_trade_rounded by simp
  have st: "nifty_ce_last_value example_state = 24500" by (simp add: example_state_def)
  from advance_within_half_of_price_up_to_rounding[of example_broker example_config
         "9007067313345659 / 2 ^ 38"
         "example_state\<lparr>nifty_pe_last_value := 8993460856951931 / 2 ^ 38\<rparr>" Traded s'
         NoInstrument
         "snd (the (handle_ce_trade_double example_broker example_config
            (9007067313345659 / 2 ^ 38)
            (example_state\<lparr>nifty_pe_last_value := 8993460856951931 / 2 ^ 38\<rparr>)))"]
       pe pe_ref
  have 1: "nifty_pe_last_value s'
             \<le> 9007067313345659 / 2 ^ 38 + 1 / 2 + (9007067313345659 / 2 ^ 38 + 1) / 2 ^ 50"
    by simp
  from advance_within_half_of_price_up_to_rounding[of empty_broker example_config
         "3360437387971789 / 2 ^ 37" example_state NoInstrument
         "snd (the (handle_pe_trade_double empty_broker example_config
            (3360437387971789 / 2 ^ 37) example_state))"
         NoInstrument t]
       ce ce_ref st
  have 2: "3360437387971789 / 2 ^ 37 - 1 / 2 - (nifty_ce_last_value example_state + 1) / 2 ^ 50
             \<le> nifty_ce_last_value t"
    by simp
  from pe pe_ref 1 have "\<exists>s'. handle_pe_trade_double example_broker example_config
              (9007067313345659 / 2 ^ 38)
              (example_state\<lparr>nifty_pe_last_value := 8993460856951931 / 2 ^ 38\<rparr>)
             = Some (Traded, s')
          \<and> nifty_pe_last_value s' \<noteq> 8993460856951931 / 2 ^ 38
          \<and> nifty_pe_last_value s'
               \<le> 9007067313345659 / 2 ^ 38 + 1 / 2 + (9007067313345659 / 2 ^ 38 + 1) / 2 ^ 50"
    by auto
  moreover from ce ce_ref 2 st have "\<exists>t. handle_ce_trade_double empty_broker example_config
              (3360437387971789 / 2 ^ 37) example_state
             = Some (NoInstrument, t)
          \<and> nifty_ce_last_value t \<noteq> nifty_ce_last_value example_state
          \<and> nifty_ce_last_value t < 3360437387971789 / 2 ^ 37
          \<and> 3360437387971789 / 2 ^ 37 - 1 / 2 - (nifty_ce_last_value example_state + 1) / 2 ^ 50
               \<le> nifty_ce_last_value t"
    by auto
  ultimately show ?thesis by blast
qed

text \<open>
  Reference 32718.02, tick 32767.52, gap 25, as the doubles these literals denote: the
  difference is 49.5 exactly and rounds to 50, the multiplier is 2, and the sum of the
  reference and 50 lies in the next binade, halfway between two doubles; it is stored as
  the upper one, \<open>2 ^ - 38\<close> above the tick plus one half.
\<close>

theorem stored_reference_exceeds_counterexample:
  "double_round (3271802 / 100) = 8993460856951931 / 2 ^ 38
   \<and> double_round (3276752 / 100) = 9007067313345659 / 2 ^ 38
   \<and> strat_var_pe_gap example_config = 25
   \<and> handle_pe_trade_double example_broker example_config (9007067313345659 / 2 ^ 38)
         (example_state\<lparr>nifty_pe_last_value := 8993460856951931 / 2 ^ 38\<rparr>) =
       Some (Traded,
         \<lparr>pe_reset_gap_flag = 1, ce_reset_gap_flag = 0,
          nifty_pe_last_value = 9007204752299132 / 2 ^ 38, nifty_ce_last_value = 24500,
          order_manager = [\<lparr>det_order_id = 1001, det_symbol = ''NEAR'',
               det_transaction_type = ''SELL'', det_quantity = 150, det_price = None\<rparr>],
          broker = [\<lparr>req_symbol = ''NEAR'', req_quantity = 150, req_price = None,
                req_transaction_type = ''SELL'', req_order_type = ''MARKET'',
                req_variety = ''REGULAR'', req_exchange = ''NFO'', req_product = ''NRML'',
                req_tag = ''Survivor''\<rparr>],
          log = [LogLowPremium 10, LogExecute ''PE'' ''NEAR'' 150, LogPlacing ''NEAR'' 150]\<rparr>)
   \<and> (9007067313345659 / 2 ^ 38 + 1 / 2 :: real) < 9007204752299132 / 2 ^ 38"
  using double_literals(1,2) double_pe_trade_across_binade
  by (simp add: example_config_def)

end
